theory Spec2Isabelle
  imports Complex_Main
begin

section \<open>JavaScript values and string primitives\<close>

text \<open>
  Frontmatter is a \<^verbatim>\<open>Record<string, unknown>\<close>: an insertion-ordered mapping from keys to
  JavaScript values. Numbers are the integer-valued ones (issue and journal ids); objects
  other than arrays and plain mappings are not represented.
\<close>

datatype jsval =
    JUndefined
  | JNull
  | JBool bool
  | JNum int
  | JStr string
  | JArr "jsval list"
  | JObj "(string \<times> jsval) list"

type_synonym frontmatter = "(string \<times> jsval) list"

text \<open>Property read \<^verbatim>\<open>obj.key\<close>: an absent key reads as \<^verbatim>\<open>undefined\<close>.\<close>

definition getProp :: "frontmatter \<Rightarrow> string \<Rightarrow> jsval" where
  "getProp fm k = (case map_of fm k of None \<Rightarrow> JUndefined | Some v \<Rightarrow> v)"

text \<open>Truthiness, as tested by \<^verbatim>\<open>!v\<close>, \<^verbatim>\<open>v && ...\<close>, \<^verbatim>\<open>v || ...\<close> and \<^verbatim>\<open>v ? a : b\<close>.\<close>

fun truthy :: "jsval \<Rightarrow> bool" where
  "truthy JUndefined = False"
| "truthy JNull = False"
| "truthy (JBool b) = b"
| "truthy (JNum n) = (n \<noteq> 0)"
| "truthy (JStr s) = (s \<noteq> [])"
| "truthy (JArr xs) = True"
| "truthy (JObj kvs) = True"

text \<open>
  A number as a comparison sees it: \<^verbatim>\<open>NaN\<close>, a finite value or an infinity. The finite
  values of interest are exact rationals.
\<close>

datatype jsnum = NaN | Fin rat | PosInfinity | NegInfinity

text \<open>A thrown value, reduced to the message that the catch blocks print.\<close>

datatype error = Error string

fun errMessage :: "error \<Rightarrow> string" where
  "errMessage (Error m) = m"

text \<open>\<^verbatim>\<open>s.startsWith(p)\<close>, \<^verbatim>\<open>s.indexOf(p)\<close> (\<open>None\<close> for \<open>-1\<close>) and \<^verbatim>\<open>s.substring(a, b)\<close>.\<close>

definition startsWith :: "string \<Rightarrow> string \<Rightarrow> bool" where
  "startsWith s p = (take (length p) s = p)"

fun indexOf :: "string \<Rightarrow> string \<Rightarrow> nat option" where
  "indexOf [] p = (if p = [] then Some 0 else None)"
| "indexOf (c # cs) p =
     (if startsWith (c # cs) p then Some 0 else map_option Suc (indexOf cs p))"

definition substring :: "string \<Rightarrow> nat \<Rightarrow> nat \<Rightarrow> string" where
  "substring s a b = take (max a b - min a b) (drop (min a b) s)"

definition substringFrom :: "string \<Rightarrow> nat \<Rightarrow> string" where
  "substringFrom s a = drop a s"

text \<open>
  White space, as \<^verbatim>\<open>String.prototype.trim\<close> and \<^verbatim>\<open>parseInt\<close> know it: the code points
  U+0009 to U+000D, U+0020, U+00A0, U+1680, U+2000 to U+200A, U+2028, U+2029, U+202F, U+205F,
  U+3000 and U+FEFF, each as its UTF-8 bytes (strings are UTF-8 encoded text).
\<close>

definition whiteSpace :: "string list" where
  "whiteSpace =
     [[CHR 0x09], [CHR 0x0A], [CHR 0x0B], [CHR 0x0C], [CHR 0x0D], [CHR 0x20],
      [CHR 0xC2, CHR 0xA0], [CHR 0xE1, CHR 0x9A, CHR 0x80],
      [CHR 0xE2, CHR 0x80, CHR 0x80], [CHR 0xE2, CHR 0x80, CHR 0x81],
      [CHR 0xE2, CHR 0x80, CHR 0x82], [CHR 0xE2, CHR 0x80, CHR 0x83],
      [CHR 0xE2, CHR 0x80, CHR 0x84], [CHR 0xE2, CHR 0x80, CHR 0x85],
      [CHR 0xE2, CHR 0x80, CHR 0x86], [CHR 0xE2, CHR 0x80, CHR 0x87],
      [CHR 0xE2, CHR 0x80, CHR 0x88], [CHR 0xE2, CHR 0x80, CHR 0x89],
      [CHR 0xE2, CHR 0x80, CHR 0x8A], [CHR 0xE2, CHR 0x80, CHR 0xA8],
      [CHR 0xE2, CHR 0x80, CHR 0xA9], [CHR 0xE2, CHR 0x80, CHR 0xAF],
      [CHR 0xE2, CHR 0x81, CHR 0x9F], [CHR 0xE3, CHR 0x80, CHR 0x80],
      [CHR 0xEF, CHR 0xBB, CHR 0xBF]]"

text \<open>Removing, from the front of a string, every leading occurrence of one of the units.\<close>

function stripUnits :: "string list \<Rightarrow> string \<Rightarrow> string" where
  "stripUnits units s =
     (case find (\<lambda>u. u \<noteq> [] \<and> startsWith s u) units of
        None \<Rightarrow> s
      | Some u \<Rightarrow> stripUnits units (drop (length u) s))"
  by pat_completeness auto
termination
proof (relation "measure (\<lambda>(units, s). length s)")
  show "wf (measure (\<lambda>(units, s). length s))" by simp
next
  fix units :: "string list" and s u :: string
  assume "find (\<lambda>u. u \<noteq> [] \<and> startsWith s u) units = Some u"
  then have "u \<noteq> []" and "startsWith s u" by (auto simp: find_Some_iff)
  then have "s \<noteq> []" by (auto simp: startsWith_def)
  with \<open>u \<noteq> []\<close> show "((units, drop (length u) s), (units, s)) \<in> measure (\<lambda>(units, s). length s)"
    by simp
qed

definition trimStart :: "string \<Rightarrow> string" where
  "trimStart s = stripUnits whiteSpace s"

definition trimEnd :: "string \<Rightarrow> string" where
  "trimEnd s = rev (stripUnits (map rev whiteSpace) (rev s))"

definition trim :: "string \<Rightarrow> string" where
  "trim s = trimEnd (trimStart s)"

text \<open>\<^verbatim>\<open>n.toString()\<close> and \<^verbatim>\<open>`${n}`\<close> for an integer.\<close>

definition digit :: "nat \<Rightarrow> char" where
  "digit d = char_of (48 + d)"

fun natToString :: "nat \<Rightarrow> string" where
  "natToString n = (if n < 10 then [digit n] else natToString (n div 10) @ [digit (n mod 10)])"

definition numToString :: "int \<Rightarrow> string" where
  "numToString i = (if i < 0 then CHR ''-'' # natToString (nat (- i)) else natToString (nat i))"

text \<open>
  \<^verbatim>\<open>parseInt(s, 10)\<close>: leading white space, an optional sign, then the longest run of
  decimal digits; \<open>None\<close> stands for \<^verbatim>\<open>NaN\<close>.
\<close>

definition isDigit :: "char \<Rightarrow> bool" where
  "isDigit c = ((48::nat) \<le> of_char c \<and> of_char c \<le> (57::nat))"

definition digitsToInt :: "string \<Rightarrow> int" where
  "digitsToInt ds = foldl (\<lambda>acc c. 10 * acc + (of_char c - 48)) 0 ds"

definition parseInt :: "string \<Rightarrow> int option" where
  "parseInt s =
     (let t = trimStart s;
          neg = (t \<noteq> [] \<and> hd t = CHR ''-'');
          u = (if t \<noteq> [] \<and> (hd t = CHR ''-'' \<or> hd t = CHR ''+'') then tl t else t);
          ds = takeWhile isDigit u
      in if ds = [] then None
         else Some (if neg then - digitsToInt ds else digitsToInt ds))"

section \<open>Remote issue data (api.ts)\<close>

text \<open>
  The issue snapshot as the engine reads it: of the nested \<^verbatim>\<open>{id, name}\<close> objects only
  the name is kept, an optional field is an \<open>option\<close>.
\<close>

record RedmineJournalDetail =
  d_name :: string
  old_value :: "string option"
  new_value :: "string option"

record RedmineJournal =
  j_id :: int
  j_user_name :: string
  j_notes :: "string option"
  j_created_on :: string
  details :: "RedmineJournalDetail list option"

record RedmineRelation =
  r_id :: int
  issue_to_id :: int
  relation_type :: string
  delay :: "int option"

record RedmineAttachment =
  a_id :: int
  a_filename :: string
  filesize :: int
  content_type :: string
  a_author_name :: string
  a_created_on :: string
  content_url :: "string option"

record RedmineIssue =
  i_id :: int
  subject :: string
  description :: string
  status_name :: string
  priority_name :: string
  author_name :: string
  assigned_to_name :: "string option"
  created_on :: string
  updated_on :: string
  project_name :: string
  tracker_name :: string
  journals :: "RedmineJournal list option"
  relations :: "RedmineRelation list option"
  attachments :: "RedmineAttachment list option"

section \<open>External collaborators\<close>

text \<open>
  The collaborators of the engine, taken as parameters. The frontmatter library (gray-matter):
  \<open>matter\<close> splits raw bytes into the decoded frontmatter and the body, \<open>stringify\<close> is
  \<^verbatim>\<open>matter.stringify('', data)\<close>; either may throw. The language's conversion of a
  string to a number (\<^verbatim>\<open>Number(s)\<close>, a floating point parse) is \<open>stringToNumber\<close>. The
  concurrency limiter (p-limit): \<open>pLimit\<close> is the error, if any, that \<^verbatim>\<open>pLimit(n)\<close> throws
  for the requested concurrency. The built-in \<^verbatim>\<open>Date\<close>: \<open>newDate\<close>
  is the time value of \<^verbatim>\<open>new Date(v)\<close> (\<open>None\<close> for an invalid date), \<open>toISOString\<close>
  throws on an invalid date, \<open>getTime\<close> is the sort key of a valid date (the order that
  \<^verbatim>\<open>sort\<close> yields under a \<^verbatim>\<open>NaN\<close> comparator is implementation-defined). The HTTP client:
  \<open>getIssue\<close> returns \<^verbatim>\<open>response.issue\<close>, \<open>getIssuesConcurrently\<close> the issue list
  for a project id, status, page size, include list and cutoff. The slug library, path
  resolution, and the I/O errors of the file system: \<open>readFault\<close> is an error of
  \<^verbatim>\<open>readFile\<close> whose code is not \<^verbatim>\<open>ENOENT\<close>, \<open>mkdirFault\<close> and \<open>writeFault\<close> are errors
  of \<^verbatim>\<open>mkdir\<close> and \<^verbatim>\<open>writeFile\<close>.
\<close>

record Env =
  matter :: "string \<Rightarrow> error + (frontmatter \<times> string)"
  stringify :: "frontmatter \<Rightarrow> error + string"
  stringToNumber :: "string \<Rightarrow> jsnum"
  pLimit :: "rat \<Rightarrow> error option"
  newDate :: "jsval \<Rightarrow> int option"
  toISOString :: "string \<Rightarrow> error + string"
  toTimeString :: "string \<Rightarrow> string"
  getTime :: "string \<Rightarrow> int"
  getIssue :: "int \<Rightarrow> string list \<Rightarrow> error + RedmineIssue"
  getIssuesConcurrently ::
    "int \<Rightarrow> string \<Rightarrow> nat \<Rightarrow> string list \<Rightarrow> string option \<Rightarrow> error + RedmineIssue list"
  slugify :: "string \<Rightarrow> bool \<Rightarrow> string"
  resolve :: "string \<Rightarrow> string \<Rightarrow> string"
  readFault :: "string \<Rightarrow> error option"
  mkdirFault :: "string \<Rightarrow> error option"
  writeFault :: "string \<Rightarrow> error option"

section \<open>Markdown document codec (file.util.ts)\<close>

record MarkdownData =
  md_frontmatter :: frontmatter
  md_content :: string
  md_comments :: "string option"

record ParsedMarkdown =
  frontmatter :: frontmatter
  content :: string
  comments :: "string option"
  rawContent :: string

record Anchors =
  anchor_start :: string
  anchor_end :: string

datatype TrackBy = journalId | createdOn

record CommentsConfig =
  anchors :: Anchors
  trackBy :: TrackBy

text \<open>The two literal patterns that the parser matches; they contain no regex operators.\<close>

definition startPattern :: string where
  "startPattern = ''<!-- redmine:comments:start -->''"

definition endPattern :: string where
  "endPattern = ''<!-- redmine:comments:end -->''"

definition extractCommentsSection :: "string \<Rightarrow> string option" where
  "extractCommentsSection c =
     (case indexOf c startPattern of
        None \<Rightarrow> None
      | Some s \<Rightarrow>
         (case indexOf c endPattern of
            None \<Rightarrow> None
          | Some e \<Rightarrow>
             (let startIndex = s + length startPattern; endIndex = e
              in if startIndex \<ge> endIndex then None
                 else Some (trim (substring c startIndex endIndex)))))"

definition removeCommentsSection :: "string \<Rightarrow> string" where
  "removeCommentsSection c =
     (case indexOf c startPattern of
        None \<Rightarrow> c
      | Some s \<Rightarrow>
         (case indexOf c endPattern of
            None \<Rightarrow> c
          | Some e \<Rightarrow>
             (let startIndex = s; endIndex = e + length endPattern
              in substring c 0 startIndex @ trim (substringFrom c endIndex))))"

definition emptyParsed :: "string \<Rightarrow> ParsedMarkdown" where
  "emptyParsed raw = \<lparr>frontmatter = [], content = [], comments = None, rawContent = raw\<rparr>"

definition parseMarkdownContent :: "Env \<Rightarrow> string \<Rightarrow> error + ParsedMarkdown" where
  "parseMarkdownContent env raw =
     (if trim raw = [] then Inr (emptyParsed raw)
      else (case matter env raw of
              Inl e \<Rightarrow> Inl e
            | Inr (fm, body) \<Rightarrow>
                Inr \<lparr>frontmatter = fm, content = removeCommentsSection body,
                     comments = extractCommentsSection body, rawContent = raw\<rparr>))"

text \<open>
  \<^verbatim>\<open>.replace(/^---\n|\n---\n?$/g, '')\<close>: without the \<^verbatim>\<open>m\<close> flag the first alternative
  matches only at offset 0 and the second only where the match ends the string.
\<close>

definition endsWith :: "string \<Rightarrow> string \<Rightarrow> bool" where
  "endsWith s p = (length p \<le> length s \<and> drop (length s - length p) s = p)"

definition stripDelimiters :: "string \<Rightarrow> string" where
  "stripDelimiters s =
     (let r = (if startsWith s ''---\<newline>'' then drop 4 s else s)
      in if endsWith r ''\<newline>---\<newline>'' then take (length r - 5) r
         else if endsWith r ''\<newline>---'' then take (length r - 4) r
         else r)"

definition commentsBlock :: "CommentsConfig \<Rightarrow> string option \<Rightarrow> string" where
  "commentsBlock cfg cm =
     (case cm of
        None \<Rightarrow> []
      | Some c \<Rightarrow>
          (if c = [] then []
           else ''\<newline>\<newline>'' @ anchor_start (anchors cfg) @ ''\<newline>'' @ c @ ''\<newline>''
                @ anchor_end (anchors cfg)))"

definition buildMarkdownContent ::
  "Env \<Rightarrow> MarkdownData \<Rightarrow> CommentsConfig \<Rightarrow> error + string" where
  "buildMarkdownContent env d cfg =
     (if md_frontmatter d \<noteq> [] then
        (case stringify env (md_frontmatter d) of
           Inl e \<Rightarrow> Inl e
         | Inr y \<Rightarrow>
             Inr (''---\<newline>'' @ stripDelimiters y @ ''---\<newline>\<newline>'' @ md_content d
                  @ commentsBlock cfg (md_comments d)))
      else Inr (md_content d @ commentsBlock cfg (md_comments d)))"

definition typeofNumberOrString :: "jsval \<Rightarrow> int option" where
  "typeofNumberOrString v =
     (case v of JNum n \<Rightarrow> Some n | JStr s \<Rightarrow> parseInt s | _ \<Rightarrow> None)"

definition extractIssueIdFromFrontmatter :: "frontmatter \<Rightarrow> int option" where
  "extractIssueIdFromFrontmatter fm = typeofNumberOrString (getProp fm ''id'')"

definition extractLastJournalId :: "frontmatter \<Rightarrow> int option" where
  "extractLastJournalId fm = typeofNumberOrString (getProp fm ''lastJournalId'')"

section \<open>Mappers (mappers.ts)\<close>

definition relationEntry :: "RedmineRelation \<Rightarrow> jsval" where
  "relationEntry r =
     JObj [(''type'', JStr (relation_type r)),
           (''issue_id'', JNum (issue_to_id r)),
           (''delay'', (case delay r of None \<Rightarrow> JUndefined | Some d \<Rightarrow> JNum d))]"

definition attachmentEntry :: "RedmineAttachment \<Rightarrow> jsval" where
  "attachmentEntry a =
     JObj [(''id'', JNum (a_id a)),
           (''filename'', JStr (a_filename a)),
           (''filesize'', JNum (filesize a)),
           (''content_type'', JStr (content_type a)),
           (''author'', JStr (a_author_name a)),
           (''created_on'', JStr (a_created_on a)),
           (''content_url'', (case content_url a of None \<Rightarrow> JUndefined | Some u \<Rightarrow> JStr u))]"

text \<open>
  \<^verbatim>\<open>journals.reduce((latest, journal) => journal.id > latest.id ? journal : latest)\<close>,
  called on a non-empty array only: the first element is the initial accumulator.
\<close>

definition lastJournal :: "RedmineJournal list \<Rightarrow> RedmineJournal" where
  "lastJournal js =
     foldl (\<lambda>latest journal. if j_id journal > j_id latest then journal else latest)
       (hd js) (tl js)"

definition mapIssueToFrontmatter :: "RedmineIssue \<Rightarrow> frontmatter" where
  "mapIssueToFrontmatter issue =
     [(''id'', JNum (i_id issue)),
      (''subject'', JStr (subject issue)),
      (''status'', JStr (status_name issue)),
      (''priority'', JStr (priority_name issue)),
      (''author'', JStr (author_name issue)),
      (''created_on'', JStr (created_on issue)),
      (''updated_on'', JStr (updated_on issue)),
      (''project'', JStr (project_name issue)),
      (''tracker'', JStr (tracker_name issue))]
     @ (case assigned_to_name issue of
          None \<Rightarrow> []
        | Some a \<Rightarrow> [(''assigned_to'', JStr a)])
     @ (case relations issue of
          None \<Rightarrow> []
        | Some rs \<Rightarrow>
            if length rs > 0 then [(''relations'', JArr (map relationEntry rs))] else [])
     @ (case attachments issue of
          None \<Rightarrow> []
        | Some ats \<Rightarrow>
            if length ats > 0 then [(''attachments'', JArr (map attachmentEntry ats))] else [])
     @ (case journals issue of
          None \<Rightarrow> []
        | Some js \<Rightarrow>
            if length js > 0 then [(''lastJournalId'', JNum (j_id (lastJournal js)))] else [])"

definition mapIssueToContent :: "RedmineIssue \<Rightarrow> string" where
  "mapIssueToContent issue = (if description issue \<noteq> [] then [] @ description issue else [])"

text \<open>\<^verbatim>\<open>v || '(none)'\<close> on an optional string.\<close>

definition orNone :: "string option \<Rightarrow> string" where
  "orNone v = (case v of None \<Rightarrow> ''(none)'' | Some t \<Rightarrow> if t = [] then ''(none)'' else t)"

text \<open>The arrow U+2192 of the change lines, as its UTF-8 bytes.\<close>

definition arrow :: string where
  "arrow = [CHR 0xE2, CHR 0x86, CHR 0x92]"

definition detailLine :: "RedmineJournalDetail \<Rightarrow> string" where
  "detailLine d =
     ''- '' @ d_name d @ '': '' @ orNone (old_value d) @ '' '' @ arrow @ '' ''
     @ orNone (new_value d) @ ''\<newline>''"

text \<open>The loop's \<^verbatim>\<open>continue\<close> test: \<^verbatim>\<open>!journal.notes || journal.notes.trim() === ''\<close>.\<close>

definition silent :: "RedmineJournal \<Rightarrow> bool" where
  "silent j = (case j_notes j of None \<Rightarrow> True | Some n \<Rightarrow> n = [] \<or> trim n = [])"

text \<open>What one iteration of the loop appends for a journal that is not skipped.\<close>

definition renderJournal :: "Env \<Rightarrow> RedmineJournal \<Rightarrow> error + string" where
  "renderJournal env j =
     (case toISOString env (j_created_on j) of
        Inl e \<Rightarrow> Inl e
      | Inr isoText \<Rightarrow>
          (let date = takeWhile (\<lambda>c. c \<noteq> CHR ''T'') isoText;
               time = take 5 (takeWhile (\<lambda>c. c \<noteq> CHR '' '') (toTimeString env (j_created_on j)))
           in Inr (''## '' @ j_user_name j @ '' - '' @ date @ '' '' @ time @ ''\<newline>\<newline>''
                   @ (case j_notes j of None \<Rightarrow> ''undefined'' | Some n \<Rightarrow> n) @ ''\<newline>\<newline>''
                   @ (case details j of
                        None \<Rightarrow> []
                      | Some ds \<Rightarrow>
                          if length ds > 0
                          then ''**Changes:**\<newline>'' @ concat (map detailLine ds) @ ''\<newline>''
                          else [])
                   @ ''---\<newline>\<newline>'')))"

fun renderLoop :: "Env \<Rightarrow> RedmineJournal list \<Rightarrow> string \<Rightarrow> error + string" where
  "renderLoop env [] acc = Inr acc"
| "renderLoop env (j # js) acc =
     (if silent j then renderLoop env js acc
      else (case renderJournal env j of
              Inl e \<Rightarrow> Inl e
            | Inr t \<Rightarrow> renderLoop env js (acc @ t)))"

text \<open>\<^verbatim>\<open>[...journals].sort(cmp)\<close>; the sort is stable.\<close>

definition sortJournals :: "Env \<Rightarrow> CommentsConfig \<Rightarrow> RedmineJournal list \<Rightarrow> RedmineJournal list" where
  "sortJournals env cfg js =
     (if trackBy cfg = journalId then sort_key j_id js
      else sort_key (\<lambda>j. getTime env (j_created_on j)) js)"

definition mapJournalsToComments ::
  "Env \<Rightarrow> RedmineJournal list \<Rightarrow> CommentsConfig \<Rightarrow> error + string" where
  "mapJournalsToComments env js cfg =
     (if length js = 0 then Inr []
      else (case renderLoop env (sortJournals env cfg js) [] of
              Inl e \<Rightarrow> Inl e
            | Inr cm \<Rightarrow> Inr (trim cm)))"

text \<open>Truthiness of a \<^verbatim>\<open>number | null\<close>.\<close>

definition numTruthy :: "int option \<Rightarrow> bool" where
  "numTruthy v = (case v of None \<Rightarrow> False | Some n \<Rightarrow> n \<noteq> 0)"

definition extractNewJournals :: "RedmineJournal list \<Rightarrow> int option \<Rightarrow> RedmineJournal list" where
  "extractNewJournals allJournals lastId =
     (if \<not> numTruthy lastId then allJournals
      else filter (\<lambda>journal. j_id journal > the lastId) allJournals)"

text \<open>\<^verbatim>\<open>a > b\<close> on two dates compares their time values; it is false when either is invalid.\<close>

definition dateGreater :: "int option \<Rightarrow> int option \<Rightarrow> bool" where
  "dateGreater a b = (case a of None \<Rightarrow> False | Some x \<Rightarrow> (case b of None \<Rightarrow> False | Some y \<Rightarrow> x > y))"

definition shouldUpdateIssue :: "Env \<Rightarrow> RedmineIssue \<Rightarrow> frontmatter \<Rightarrow> bool" where
  "shouldUpdateIssue env remoteIssue localFrontmatter =
     (let localUpdatedOn = getProp localFrontmatter ''updated_on'';
          remoteUpdatedOn = updated_on remoteIssue
      in if \<not> truthy localUpdatedOn then True
         else dateGreater (newDate env (JStr remoteUpdatedOn)) (newDate env localUpdatedOn))"

text \<open>
  \<^verbatim>\<open>journal.id > localLastJournalId\<close> with an untyped right operand: the operand is converted
  to a primitive and then to a number; a string is converted by the language's
  \<open>stringToNumber\<close>.
\<close>

fun intercalate :: "string \<Rightarrow> string list \<Rightarrow> string" where
  "intercalate sep [] = []"
| "intercalate sep [x] = x"
| "intercalate sep (x # y # zs) = x @ sep @ intercalate sep (y # zs)"

primrec jsToString :: "jsval \<Rightarrow> string" where
  "jsToString JUndefined = ''undefined''"
| "jsToString JNull = ''null''"
| "jsToString (JBool b) = (if b then ''true'' else ''false'')"
| "jsToString (JNum n) = numToString n"
| "jsToString (JStr t) = t"
| "jsToString (JArr xs) = intercalate '','' (map jsToString xs)"
| "jsToString (JObj kvs) = ''[object Object]''"

definition arrayElemToString :: "jsval \<Rightarrow> string" where
  "arrayElemToString v = (case v of JUndefined \<Rightarrow> [] | JNull \<Rightarrow> [] | _ \<Rightarrow> jsToString v)"

definition toNumber :: "Env \<Rightarrow> jsval \<Rightarrow> jsnum" where
  "toNumber env v =
     (case v of
        JUndefined \<Rightarrow> NaN
      | JNull \<Rightarrow> Fin 0
      | JBool b \<Rightarrow> Fin (if b then 1 else 0)
      | JNum n \<Rightarrow> Fin (of_int n)
      | JStr t \<Rightarrow> stringToNumber env t
      | JArr xs \<Rightarrow> stringToNumber env (intercalate '','' (map arrayElemToString xs))
      | JObj kvs \<Rightarrow> NaN)"

definition numGreater :: "Env \<Rightarrow> int \<Rightarrow> jsval \<Rightarrow> bool" where
  "numGreater env n v =
     (case toNumber env v of
        NaN \<Rightarrow> False
      | Fin m \<Rightarrow> of_int n > m
      | PosInfinity \<Rightarrow> False
      | NegInfinity \<Rightarrow> True)"

definition shouldUpdateComments :: "Env \<Rightarrow> RedmineJournal list \<Rightarrow> frontmatter \<Rightarrow> bool" where
  "shouldUpdateComments env remoteJournals localFrontmatter =
     (let localLastJournalId = getProp localFrontmatter ''lastJournalId''
      in if \<not> truthy localLastJournalId then length remoteJournals > 0
         else list_ex (\<lambda>journal. numGreater env (j_id journal) localLastJournalId)
                remoteJournals)"

section \<open>File names (slug.util.ts)\<close>

record SlugConfig =
  maxLength :: nat
  dedupe :: bool
  lowercase :: bool

record FilenameConfig =
  pattern :: string
  slug :: SlugConfig

text \<open>
  The engine calls \<^verbatim>\<open>generateFilename\<close> without a set of existing slugs, so the default
  parameter is a fresh empty set at every call and the guard of the de-duplication loop
  \<^verbatim>\<open>while (existingSlugs.has(finalSlug))\<close> is false on entry.
\<close>

definition generateSlug :: "Env \<Rightarrow> string \<Rightarrow> SlugConfig \<Rightarrow> string" where
  "generateSlug env title cfg =
     (let slug0 = slugify env title (lowercase cfg);
          slug1 = substring slug0 0 (maxLength cfg)
      in if \<not> dedupe cfg then slug1 else slug1)"

text \<open>\<^verbatim>\<open>s.replace(p, r)\<close> with a string pattern: the first occurrence only.\<close>

definition replaceFirst :: "string \<Rightarrow> string \<Rightarrow> string \<Rightarrow> string" where
  "replaceFirst s p r =
     (case indexOf s p of
        None \<Rightarrow> s
      | Some i \<Rightarrow> take i s @ r @ drop (i + length p) s)"

definition generateFilename :: "Env \<Rightarrow> int \<Rightarrow> string \<Rightarrow> FilenameConfig \<Rightarrow> string" where
  "generateFilename env issueId title cfg =
     (let slugText = generateSlug env title (slug cfg)
      in replaceFirst (replaceFirst (pattern cfg) ''{issueId}'' (numToString issueId))
           ''{slug}'' slugText)"

section \<open>File access (file.util.ts)\<close>

text \<open>The files of the output directory: a map from resolved path to bytes.\<close>

type_synonym store = "string \<rightharpoonup> string"

definition readMarkdownFile :: "Env \<Rightarrow> store \<Rightarrow> string \<Rightarrow> error + ParsedMarkdown" where
  "readMarkdownFile env st filePath =
     (case readFault env filePath of
        Some e \<Rightarrow> Inl e
      | None \<Rightarrow>
          (case st filePath of
             None \<Rightarrow> Inr (emptyParsed [])
           | Some raw \<Rightarrow> parseMarkdownContent env raw))"

definition writeMarkdownFile ::
  "Env \<Rightarrow> store \<Rightarrow> string \<Rightarrow> MarkdownData \<Rightarrow> CommentsConfig \<Rightarrow> error + store" where
  "writeMarkdownFile env st filePath d cfg =
     (case mkdirFault env filePath of
        Some e \<Rightarrow> Inl e
      | None \<Rightarrow>
          (case buildMarkdownContent env d cfg of
             Inl e \<Rightarrow> Inl e
           | Inr bytes \<Rightarrow>
               (case writeFault env filePath of
                  Some e \<Rightarrow> Inl e
                | None \<Rightarrow> Inr (st(filePath \<mapsto> bytes)))))"

section \<open>Issue sync decision engine (sync-issue.ts)\<close>

record RedmineConfig =
  concurrency :: rat
  projectId :: int
  outputDir :: string
  defaultInclude :: "string list"
  defaultStatus :: string
  defaultPageSize :: nat
  filenameConfig :: FilenameConfig
  commentsConfig :: CommentsConfig

record SyncIssueOptions =
  dryRun :: bool
  optOutputDir :: "string option"

datatype Action = created | updated | skipped

record Changes =
  ch_content :: bool
  ch_comments :: bool
  ch_frontmatter :: bool

record SyncIssueResult =
  success :: bool
  issueId :: int
  filename :: string
  action :: Action
  message :: string
  changes :: "Changes option"

definition actionName :: "Action \<Rightarrow> string" where
  "actionName a = (case a of created \<Rightarrow> ''created'' | updated \<Rightarrow> ''updated'' | skipped \<Rightarrow> ''skipped'')"

text \<open>
  \<^verbatim>\<open>new RedmineApiClient(config)\<close>: the constructor stores the base URL, the token and the
  retry settings and calls \<^verbatim>\<open>pLimit(config.defaults.concurrency)\<close>, which may throw.
\<close>

definition newRedmineApiClient :: "Env \<Rightarrow> RedmineConfig \<Rightarrow> error + unit" where
  "newRedmineApiClient env config =
     (case pLimit env (concurrency config) of Some e \<Rightarrow> Inl e | None \<Rightarrow> Inr ())"

text \<open>\<^verbatim>\<open>v || fallback\<close> on an optional string, and \<^verbatim>\<open>v || undefined\<close>.\<close>

definition orElse :: "string option \<Rightarrow> string \<Rightarrow> string" where
  "orElse v d = (case v of None \<Rightarrow> d | Some t \<Rightarrow> if t = [] then d else t)"

definition orUndefined :: "string option \<Rightarrow> string option" where
  "orUndefined v = (case v of None \<Rightarrow> None | Some t \<Rightarrow> if t = [] then None else Some t)"

definition strTruthy :: "string option \<Rightarrow> bool" where
  "strTruthy v = (case v of None \<Rightarrow> False | Some t \<Rightarrow> t \<noteq> [])"

text \<open>\<^verbatim>\<open>issue.journals || []\<close>.\<close>

definition journalsOrEmpty :: "RedmineIssue \<Rightarrow> RedmineJournal list" where
  "journalsOrEmpty issue = (case journals issue of None \<Rightarrow> [] | Some js \<Rightarrow> js)"

text \<open>Lines 87 to 102 of the engine: the comments text of the document to write.\<close>

definition resolveComments ::
  "Env \<Rightarrow> CommentsConfig \<Rightarrow> bool \<Rightarrow> RedmineIssue \<Rightarrow> int option \<Rightarrow> string option
     \<Rightarrow> error + string option" where
  "resolveComments env cfg needsCommentsUpdate issue existingLastJournalId existingComments =
     (case journals issue of
        None \<Rightarrow> Inr (orUndefined existingComments)
      | Some js \<Rightarrow>
          if needsCommentsUpdate then
            (let newJournals = extractNewJournals js existingLastJournalId
             in if length newJournals > 0 then
                  (case mapJournalsToComments env newJournals cfg of
                     Inl e \<Rightarrow> Inl e
                   | Inr newComments \<Rightarrow>
                       if strTruthy existingComments
                       then Inr (Some (the existingComments @ ''\<newline>\<newline>---\<newline>\<newline>''
                                       @ newComments))
                       else Inr (Some newComments))
                else Inr (orUndefined existingComments))
          else Inr (orUndefined existingComments))"

text \<open>The body of the \<^verbatim>\<open>try\<close> block; \<open>Inl\<close> is an exception that reaches the \<^verbatim>\<open>catch\<close>.\<close>

definition syncIssueTry ::
  "Env \<Rightarrow> int \<Rightarrow> RedmineConfig \<Rightarrow> SyncIssueOptions \<Rightarrow> store
     \<Rightarrow> error + (SyncIssueResult \<times> store)" where
  "syncIssueTry env issueIdArg config options st =
     (let outDir = orElse (optOutputDir options) (outputDir config)
      in case getIssue env issueIdArg (defaultInclude config) of
           Inl e \<Rightarrow> Inl e
         | Inr issue \<Rightarrow>
        (let fname = generateFilename env (i_id issue) (subject issue) (filenameConfig config);
             filePath = resolve env outDir fname
         in case readMarkdownFile env st filePath of
              Inl e \<Rightarrow> Inl e
            | Inr existingFile \<Rightarrow>
           (let existingIssueId = extractIssueIdFromFrontmatter (frontmatter existingFile);
                existingLastJournalId = extractLastJournalId (frontmatter existingFile)
            in if numTruthy existingIssueId \<and> existingIssueId \<noteq> Some (i_id issue) then
                 Inr (\<lparr>success = False, issueId = i_id issue, filename = fname,
                       action = skipped,
                       message = ''File '' @ fname @ '' contains issue ''
                                 @ numToString (the existingIssueId) @ '', not ''
                                 @ numToString (i_id issue),
                       changes = None\<rparr>, st)
               else
              (let needsUpdate = shouldUpdateIssue env issue (frontmatter existingFile);
                   needsCommentsUpdate =
                     shouldUpdateComments env (journalsOrEmpty issue) (frontmatter existingFile)
               in if \<not> needsUpdate \<and> \<not> needsCommentsUpdate then
                    Inr (\<lparr>success = True, issueId = i_id issue, filename = fname,
                          action = skipped,
                          message = ''Issue '' @ numToString issueIdArg @ '' is already up to date'',
                          changes = None\<rparr>, st)
                  else
                 (let fm = mapIssueToFrontmatter issue;
                      body = mapIssueToContent issue
                  in case resolveComments env (commentsConfig config) needsCommentsUpdate issue
                            existingLastJournalId (comments existingFile) of
                       Inl e \<Rightarrow> Inl e
                     | Inr cm \<Rightarrow>
                    (let chg = \<lparr>ch_content = needsUpdate, ch_comments = needsCommentsUpdate,
                                ch_frontmatter = needsUpdate\<rparr>;
                         act = (if numTruthy existingIssueId then updated else created)
                     in if dryRun options then
                          Inr (\<lparr>success = True, issueId = i_id issue, filename = fname,
                                action = act,
                                message = ''Would '' @ actionName act @ '' issue ''
                                          @ numToString issueIdArg @ '' (dry run)'',
                                changes = Some chg\<rparr>, st)
                        else
                          (case writeMarkdownFile env st filePath
                                  \<lparr>md_frontmatter = fm, md_content = body, md_comments = cm\<rparr>
                                  (commentsConfig config) of
                             Inl e \<Rightarrow> Inl e
                           | Inr st' \<Rightarrow>
                               Inr (\<lparr>success = True, issueId = i_id issue, filename = fname,
                                     action = act,
                                     message = ''Successfully '' @ actionName act @ '' issue ''
                                               @ numToString issueIdArg,
                                     changes = Some chg\<rparr>, st'))))))))"

text \<open>
  The whole function: the client is constructed before the \<^verbatim>\<open>try\<close> block, so what the
  constructor throws reaches the caller (\<open>Inl\<close>); whatever the \<^verbatim>\<open>try\<close> block throws becomes
  a failed result.
\<close>

definition syncIssue ::
  "Env \<Rightarrow> int \<Rightarrow> RedmineConfig \<Rightarrow> SyncIssueOptions \<Rightarrow> store
     \<Rightarrow> error + (SyncIssueResult \<times> store)" where
  "syncIssue env issueIdArg config options st =
     (case newRedmineApiClient env config of
        Inl e \<Rightarrow> Inl e
      | Inr client \<Rightarrow>
          (case syncIssueTry env issueIdArg config options st of
             Inr out \<Rightarrow> Inr out
           | Inl e \<Rightarrow>
               Inr (\<lparr>success = False, issueId = issueIdArg, filename = [], action = skipped,
                     message = ''Failed to sync issue '' @ numToString issueIdArg @ '': ''
                               @ errMessage e,
                     changes = None\<rparr>, st)))"

text \<open>The journals for which the rendering loop appends text (those it does not skip).\<close>

definition rendered :: "RedmineJournal list \<Rightarrow> RedmineJournal list" where
  "rendered js = filter (\<lambda>j. \<not> silent j) js"

definition maxJournalId :: "RedmineJournal list \<Rightarrow> int" where
  "maxJournalId js = Max (j_id ` set js)"

text \<open>
  Names for the locals of \<open>syncIssueTry\<close>: the target file name and path, the identity test
  of step 4 and the change test of step 5.
\<close>

definition targetName :: "Env \<Rightarrow> RedmineConfig \<Rightarrow> RedmineIssue \<Rightarrow> string" where
  "targetName env cfg issue =
     generateFilename env (i_id issue) (subject issue) (filenameConfig cfg)"

definition targetPath :: "Env \<Rightarrow> RedmineConfig \<Rightarrow> SyncIssueOptions \<Rightarrow> RedmineIssue \<Rightarrow> string" where
  "targetPath env cfg opts issue =
     resolve env (orElse (optOutputDir opts) (outputDir cfg)) (targetName env cfg issue)"

definition conflict :: "ParsedMarkdown \<Rightarrow> RedmineIssue \<Rightarrow> bool" where
  "conflict ex issue =
     (numTruthy (extractIssueIdFromFrontmatter (frontmatter ex))
      \<and> extractIssueIdFromFrontmatter (frontmatter ex) \<noteq> Some (i_id issue))"

definition changed :: "Env \<Rightarrow> RedmineIssue \<Rightarrow> ParsedMarkdown \<Rightarrow> bool" where
  "changed env issue ex =
     (shouldUpdateIssue env issue (frontmatter ex)
      \<or> shouldUpdateComments env (journalsOrEmpty issue) (frontmatter ex))"

definition changesOf :: "Env \<Rightarrow> RedmineIssue \<Rightarrow> ParsedMarkdown \<Rightarrow> Changes" where
  "changesOf env issue ex =
     \<lparr>ch_content = shouldUpdateIssue env issue (frontmatter ex),
      ch_comments = shouldUpdateComments env (journalsOrEmpty issue) (frontmatter ex),
      ch_frontmatter = shouldUpdateIssue env issue (frontmatter ex)\<rparr>"

definition documentOf :: "RedmineIssue \<Rightarrow> string option \<Rightarrow> MarkdownData" where
  "documentOf issue cm =
     \<lparr>md_frontmatter = mapIssueToFrontmatter issue, md_content = mapIssueToContent issue,
      md_comments = cm\<rparr>"

section \<open>Project sync orchestrator (sync-project.ts)\<close>

record SyncProjectOptions =
  p_status :: "string option"
  updatedSince :: "string option"
  p_dryRun :: bool
  p_outputDir :: "string option"
  pageSize :: "nat option"

record SyncProjectResult =
  p_success :: bool
  totalIssues :: nat
  processed :: nat
  n_created :: nat
  n_updated :: nat
  n_skipped :: nat
  failed :: nat
  errors :: "(int \<times> string) list"

definition initialResult :: SyncProjectResult where
  "initialResult =
     \<lparr>p_success = True, totalIssues = 0, processed = 0, n_created = 0, n_updated = 0,
      n_skipped = 0, failed = 0, errors = []\<rparr>"

text \<open>What the per-issue callback does to the shared result once \<^verbatim>\<open>syncIssue\<close> has returned.\<close>

definition recordResult :: "SyncIssueResult \<Rightarrow> SyncProjectResult \<Rightarrow> SyncProjectResult" where
  "recordResult sr r =
     (let r1 = r\<lparr>processed := processed r + 1\<rparr>
      in if success sr then
           (case action sr of
              created \<Rightarrow> r1\<lparr>n_created := n_created r1 + 1\<rparr>
            | updated \<Rightarrow> r1\<lparr>n_updated := n_updated r1 + 1\<rparr>
            | skipped \<Rightarrow> r1\<lparr>n_skipped := n_skipped r1 + 1\<rparr>)
         else r1\<lparr>failed := failed r1 + 1,
                 errors := errors r1 @ [(issueId sr, message sr)]\<rparr>)"

text \<open>
  The per-issue calls, run one after the other in list order (one of the schedules that
  \<^verbatim>\<open>Promise.all\<close> admits). A call that threw would reject \<^verbatim>\<open>Promise.all\<close>: \<open>Inl\<close> carries
  the error together with the result and the files as they stand at that point.
\<close>

fun syncAll ::
  "Env \<Rightarrow> RedmineConfig \<Rightarrow> SyncIssueOptions \<Rightarrow> RedmineIssue list
     \<Rightarrow> SyncProjectResult \<times> store
     \<Rightarrow> (error \<times> SyncProjectResult \<times> store) + (SyncProjectResult \<times> store)" where
  "syncAll env config opts [] (r, st) = Inr (r, st)"
| "syncAll env config opts (issue # rest) (r, st) =
     (case syncIssue env (i_id issue) config opts st of
        Inl e \<Rightarrow> Inl (e, r, st)
      | Inr (sr, st') \<Rightarrow> syncAll env config opts rest (recordResult sr r, st'))"

definition natOrElse :: "nat option \<Rightarrow> nat \<Rightarrow> nat" where
  "natOrElse v d = (case v of None \<Rightarrow> d | Some n \<Rightarrow> if n = 0 then d else n)"

definition syncProject ::
  "Env \<Rightarrow> RedmineConfig \<Rightarrow> SyncProjectOptions \<Rightarrow> store
     \<Rightarrow> error + (SyncProjectResult \<times> store)" where
  "syncProject env config options st =
     (case newRedmineApiClient env config of
        Inl e \<Rightarrow> Inl e
      | Inr client \<Rightarrow>
     (let pSize = natOrElse (pageSize options) (defaultPageSize config);
          result = initialResult
      in case getIssuesConcurrently env (projectId config)
                (orElse (p_status options) (defaultStatus config)) pSize
                (defaultInclude config) (updatedSince options) of
           Inl e \<Rightarrow>
             Inr (result\<lparr>p_success := False,
                         errors := errors result
                                   @ [(0, ''Failed to fetch issues: '' @ errMessage e)]\<rparr>, st)
         | Inr issues \<Rightarrow>
             (let result1 = result\<lparr>totalIssues := length issues\<rparr>
              in if length issues = 0 then Inr (result1, st)
                 else (case syncAll env config
                              \<lparr>dryRun = p_dryRun options, optOutputDir = p_outputDir options\<rparr>
                              issues (result1, st) of
                         Inl (e, r, st') \<Rightarrow>
                           Inr (r\<lparr>p_success := False,
                                  errors := errors r
                                            @ [(0, ''Failed to fetch issues: '' @ errMessage e)]\<rparr>,
                                st')
                       | Inr (r, st') \<Rightarrow> Inr (r\<lparr>p_success := (failed r = 0)\<rparr>, st')))))"

text \<open>
  The results of the per-issue calls of a project run, in the order of \<open>syncAll\<close>, and the
  tally that the callback keeps of them.
\<close>

fun issueResults ::
  "Env \<Rightarrow> RedmineConfig \<Rightarrow> SyncIssueOptions \<Rightarrow> RedmineIssue list \<Rightarrow> store
     \<Rightarrow> SyncIssueResult list" where
  "issueResults env config opts [] st = []"
| "issueResults env config opts (issue # rest) st =
     (case syncIssue env (i_id issue) config opts st of
        Inl e \<Rightarrow> []
      | Inr (sr, st') \<Rightarrow> sr # issueResults env config opts rest st')"

definition succeededWith :: "Action \<Rightarrow> SyncIssueResult list \<Rightarrow> SyncIssueResult list" where
  "succeededWith a rs = filter (\<lambda>sr. success sr \<and> action sr = a) rs"

definition failures :: "SyncIssueResult list \<Rightarrow> SyncIssueResult list" where
  "failures rs = filter (\<lambda>sr. \<not> success sr) rs"

definition errorEntry :: "SyncIssueResult \<Rightarrow> int \<times> string" where
  "errorEntry sr = (issueId sr, message sr)"

section \<open>Reference collaborators\<close>

text \<open>
  A small executable stand-in for the collaborators, on which the engine can be run on
  concrete inputs. The frontmatter stand-in handles flat mappings of integers and plain
  one-line strings: \<open>refStringify\<close> writes one \<^verbatim>\<open>key: value\<close> line per entry between two
  \<^verbatim>\<open>---\<close> lines and ends with an empty line; \<open>refMatter\<close> reads the block between the
  opening \<^verbatim>\<open>---\<close> and the next line that starts with \<^verbatim>\<open>---\<close>, and returns the rest, less
  one line break, as the body. Dates are the strings \<^verbatim>\<open>YYYY-MM-DDTHH:MM:SSZ\<close>, and the
  limiter accepts the positive integers.
\<close>

definition refScalar :: "jsval \<Rightarrow> string option" where
  "refScalar v =
     (case v of
        JNum n \<Rightarrow> Some (numToString n)
      | JStr t \<Rightarrow> if CHR ''\<newline>'' \<in> set t then None else Some t
      | _ \<Rightarrow> None)"

fun refLines :: "frontmatter \<Rightarrow> string option" where
  "refLines [] = Some []"
| "refLines ((k, v) # kvs) =
     (case refScalar v of
        None \<Rightarrow> None
      | Some t \<Rightarrow> (case refLines kvs of
                     None \<Rightarrow> None
                   | Some r \<Rightarrow> Some (k @ '': '' @ t @ ''\<newline>'' @ r)))"

definition refStringify :: "frontmatter \<Rightarrow> error + string" where
  "refStringify fm =
     (case refLines fm of
        None \<Rightarrow> Inl (Error ''unacceptable kind of an object to dump'')
      | Some ls \<Rightarrow> Inr (''---\<newline>'' @ ls @ ''---\<newline>'' @ ''\<newline>''))"

fun splitLines :: "string \<Rightarrow> string \<Rightarrow> string list" where
  "splitLines [] cur = (if cur = [] then [] else [cur])"
| "splitLines (c # cs) cur =
     (if c = CHR ''\<newline>'' then cur # splitLines cs [] else splitLines cs (cur @ [c]))"

definition refValue :: "string \<Rightarrow> jsval" where
  "refValue t = (if t \<noteq> [] \<and> list_all isDigit t then JNum (digitsToInt t) else JStr t)"

fun refDecode :: "string list \<Rightarrow> frontmatter option" where
  "refDecode [] = Some []"
| "refDecode (l # ls) =
     (if l = [] then refDecode ls
      else (case indexOf l '': '' of
              None \<Rightarrow> None
            | Some i \<Rightarrow>
                (case refDecode ls of
                   None \<Rightarrow> None
                 | Some kvs \<Rightarrow> Some ((take i l, refValue (drop (i + 2) l)) # kvs))))"

definition refMatter :: "string \<Rightarrow> error + (frontmatter \<times> string)" where
  "refMatter raw =
     (if \<not> startsWith raw ''---\<newline>'' then Inr ([], raw)
      else (let str = drop 3 raw;
                closeIndex = (case indexOf str ''\<newline>---'' of None \<Rightarrow> length str | Some i \<Rightarrow> i);
                rest = drop (closeIndex + 4) str;
                body = (if startsWith rest ''\<newline>'' then drop 1 rest else rest)
            in case refDecode (splitLines (take closeIndex str) []) of
                 None \<Rightarrow> Inl (Error ''can not read the frontmatter block'')
               | Some fm \<Rightarrow> Inr (fm, body)))"

text \<open>
  The stand-in for the conversion of a string to a number reads the numeric literals of the
  language exactly: the empty or blank string as 0, \<^verbatim>\<open>0x\<close> followed by hexadecimal digits,
  and an optional sign followed by \<^verbatim>\<open>Infinity\<close> or by decimal digits with an optional fraction
  and an optional exponent; every other string is not a number.
\<close>

definition isHexDigit :: "char \<Rightarrow> bool" where
  "isHexDigit c =
     (let n = (of_char c :: nat)
      in (48 \<le> n \<and> n \<le> 57) \<or> (65 \<le> n \<and> n \<le> 70) \<or> (97 \<le> n \<and> n \<le> 102))"

definition hexToInt :: "string \<Rightarrow> int" where
  "hexToInt ds =
     foldl (\<lambda>acc c. 16 * acc
              + (let n = (of_char c :: int)
                 in if n \<le> 57 then n - 48 else if n \<le> 70 then n - 55 else n - 87)) 0 ds"

definition refExponent :: "string \<Rightarrow> rat option" where
  "refExponent x =
     (if x = [] then Some 1
      else (let r = tl x;
                neg = (r \<noteq> [] \<and> hd r = CHR ''-'');
                ds = (if r \<noteq> [] \<and> (hd r = CHR ''-'' \<or> hd r = CHR ''+'') then tl r else r)
            in if ds \<noteq> [] \<and> list_all isDigit ds
               then Some (if neg then 1 / 10 ^ nat (digitsToInt ds) else 10 ^ nat (digitsToInt ds))
               else None))"

definition refDecimal :: "string \<Rightarrow> rat option" where
  "refDecimal b =
     (let m = takeWhile (\<lambda>c. c \<noteq> CHR ''e'' \<and> c \<noteq> CHR ''E'') b;
          ip = takeWhile (\<lambda>c. c \<noteq> CHR ''.'') m;
          fp = drop (length ip + 1) m
      in if list_all isDigit ip \<and> list_all isDigit fp \<and> (ip \<noteq> [] \<or> fp \<noteq> [])
         then (case refExponent (drop (length m) b) of
                 None \<Rightarrow> None
               | Some f \<Rightarrow> Some (of_int (digitsToInt (ip @ fp)) / 10 ^ length fp * f))
         else None)"

definition refStringToNumber :: "string \<Rightarrow> jsnum" where
  "refStringToNumber t =
     (let u = trim t;
          neg = (u \<noteq> [] \<and> hd u = CHR ''-'');
          b = (if u \<noteq> [] \<and> (hd u = CHR ''-'' \<or> hd u = CHR ''+'') then tl u else u)
      in if u = [] then Fin 0
         else if (startsWith u ''0x'' \<or> startsWith u ''0X'') \<and> 2 < length u
                 \<and> list_all isHexDigit (drop 2 u)
         then Fin (of_int (hexToInt (drop 2 u)))
         else if b = ''Infinity'' then (if neg then NegInfinity else PosInfinity)
         else (case refDecimal b of
                 None \<Rightarrow> NaN
               | Some q \<Rightarrow> Fin (if neg then - q else q)))"

definition refPLimit :: "rat \<Rightarrow> error option" where
  "refPLimit c =
     (if c = of_int \<lfloor>c\<rfloor> \<and> 0 < c then None
      else Some (Error ''Expected `concurrency` to be a number from 1 and up''))"

definition refTime :: "string \<Rightarrow> int option" where
  "refTime t =
     (let ds = filter isDigit t
      in if length t = 20 \<and> length ds = 14 then Some (digitsToInt ds) else None)"

definition refNewDate :: "jsval \<Rightarrow> int option" where
  "refNewDate v = (case v of JStr t \<Rightarrow> refTime t | _ \<Rightarrow> None)"

definition refToISOString :: "string \<Rightarrow> error + string" where
  "refToISOString t =
     (case refTime t of
        None \<Rightarrow> Inl (Error ''Invalid time value'')
      | Some x \<Rightarrow> Inr (take 19 t @ ''.000Z''))"

definition refToTimeString :: "string \<Rightarrow> string" where
  "refToTimeString t =
     (case refTime t of
        None \<Rightarrow> ''Invalid Date''
      | Some x \<Rightarrow> substring t 11 19 @ '' GMT+0000 (Coordinated Universal Time)'')"

definition refSlugChar :: "bool \<Rightarrow> char \<Rightarrow> string" where
  "refSlugChar lower c =
     (let n = (of_char c :: nat)
      in if 65 \<le> n \<and> n \<le> 90 then [if lower then char_of (n + 32) else c]
         else if (97 \<le> n \<and> n \<le> 122) \<or> isDigit c then [c]
         else if c = CHR '' '' \<or> c = CHR ''-'' then ''-''
         else [])"

definition refSlugify :: "string \<Rightarrow> bool \<Rightarrow> string" where
  "refSlugify title lower = concat (map (refSlugChar lower) title)"

definition refEnv :: "RedmineIssue list \<Rightarrow> Env" where
  "refEnv remote =
     \<lparr>matter = refMatter,
      stringify = refStringify,
      stringToNumber = refStringToNumber,
      pLimit = refPLimit,
      newDate = refNewDate,
      toISOString = refToISOString,
      toTimeString = refToTimeString,
      getTime = (\<lambda>t. case refTime t of None \<Rightarrow> 0 | Some x \<Rightarrow> x),
      getIssue = (\<lambda>n inc. case find (\<lambda>i. i_id i = n) remote of
                             None \<Rightarrow> Inl (Error ''HTTP 404: Not Found'')
                           | Some i \<Rightarrow> Inr i),
      getIssuesConcurrently = (\<lambda>pid st ps inc since. Inr remote),
      slugify = refSlugify,
      resolve = (\<lambda>dir name. dir @ ''/'' @ name),
      readFault = (\<lambda>p. None),
      mkdirFault = (\<lambda>p. None),
      writeFault = (\<lambda>p. None)\<rparr>"

definition refConfig :: RedmineConfig where
  "refConfig =
     \<lparr>concurrency = 4,
      projectId = 1,
      outputDir = ''.jai1/redmine'',
      defaultInclude = [''journals''],
      defaultStatus = ''*'',
      defaultPageSize = 100,
      filenameConfig = \<lparr>pattern = ''{issueId}-{slug}.md'',
                        slug = \<lparr>maxLength = 80, dedupe = True, lowercase = True\<rparr>\<rparr>,
      commentsConfig = \<lparr>anchors = \<lparr>anchor_start = ''<!-- redmine:comments:start -->'',
                                    anchor_end = ''<!-- redmine:comments:end -->''\<rparr>,
                        trackBy = journalId\<rparr>\<rparr>"

section \<open>Example inputs\<close>

definition exReversedAnchors :: string where
  "exReversedAnchors = ''A<!-- redmine:comments:end -->B<!-- redmine:comments:start -->C''"

definition exDocPlain :: MarkdownData where
  "exDocPlain = \<lparr>md_frontmatter = [], md_content = ''# Test Content'', md_comments = None\<rparr>"

definition exDocFull :: MarkdownData where
  "exDocFull =
     \<lparr>md_frontmatter = [(''id'', JNum 123), (''subject'', JStr ''Test'')],
      md_content = ''# Test Content'',
      md_comments = Some ''## Comment\<newline>This is a comment.''\<rparr>"

definition exOpts :: SyncIssueOptions where
  "exOpts = \<lparr>dryRun = False, optOutputDir = None\<rparr>"

definition exDryOpts :: SyncIssueOptions where
  "exDryOpts = \<lparr>dryRun = True, optOutputDir = None\<rparr>"

definition exProjectOpts :: SyncProjectOptions where
  "exProjectOpts =
     \<lparr>p_status = None, updatedSince = None, p_dryRun = False, p_outputDir = None,
      pageSize = None\<rparr>"

definition emptyStore :: store where
  "emptyStore = Map.empty"

definition exIssue :: "int \<Rightarrow> RedmineJournal list option \<Rightarrow> string \<Rightarrow> RedmineIssue" where
  "exIssue n js upd =
     \<lparr>i_id = n, subject = ''Fix bug'', description = ''Desc'', status_name = ''New'',
      priority_name = ''Normal'', author_name = ''Bob'', assigned_to_name = None,
      created_on = ''2024-01-01T00:00:00Z'', updated_on = upd, project_name = ''P'',
      tracker_name = ''Bug'', journals = js, relations = None, attachments = None\<rparr>"

definition exIssue7 :: RedmineIssue where
  "exIssue7 = exIssue 7 None ''2024-01-15T10:30:00Z''"

definition exIssue42 :: RedmineIssue where
  "exIssue42 = exIssue 42 None ''2024-01-15T10:30:00Z''"

definition exPath7 :: string where
  "exPath7 = ''.jai1/redmine/7-fix-bug.md''"

definition exPath42 :: string where
  "exPath42 = ''.jai1/redmine/42-fix-bug.md''"

text \<open>A file that records issue 5 where issue 7 is to be written, and two files whose
  recorded id is 0 or not a number.\<close>

definition exFiveFile :: string where
  "exFiveFile = ''---\<newline>id: 5\<newline>---\<newline>Old notes''"

definition exFiveStore :: store where
  "exFiveStore = emptyStore(exPath7 \<mapsto> exFiveFile)"

definition exFiveParsed :: ParsedMarkdown where
  "exFiveParsed =
     \<lparr>frontmatter = [(''id'', JNum 5)], content = ''Old notes'', comments = None,
      rawContent = exFiveFile\<rparr>"

definition exZeroFile :: string where
  "exZeroFile = ''---\<newline>id: 0\<newline>---\<newline>Old notes''"

definition exZeroStore :: store where
  "exZeroStore = emptyStore(exPath7 \<mapsto> exZeroFile)"

definition exZeroParsed :: ParsedMarkdown where
  "exZeroParsed =
     \<lparr>frontmatter = [(''id'', JNum 0)], content = ''Old notes'', comments = None,
      rawContent = exZeroFile\<rparr>"

definition exBadIdFile :: string where
  "exBadIdFile = ''---\<newline>id: abc\<newline>---\<newline>Old notes''"

definition exBadIdStore :: store where
  "exBadIdStore = emptyStore(exPath7 \<mapsto> exBadIdFile)"

definition exBadIdParsed :: ParsedMarkdown where
  "exBadIdParsed =
     \<lparr>frontmatter = [(''id'', JStr ''abc'')], content = ''Old notes'', comments = None,
      rawContent = exBadIdFile\<rparr>"

definition exBytes7 :: string where
  "exBytes7 =
     ''---\<newline>id: 7\<newline>subject: Fix bug\<newline>status: New\<newline>priority: Normal\<newline>author: Bob\<newline>created_on: 2024-01-01T00:00:00Z\<newline>updated_on: 2024-01-15T10:30:00Z\<newline>project: P\<newline>tracker: Bug\<newline>---\<newline>\<newline>---\<newline>\<newline>Desc''"

text \<open>Collaborators whose network is down.\<close>

definition downEnv :: Env where
  "downEnv =
     (refEnv [])\<lparr>getIssue := (\<lambda>n inc. Inl (Error ''connect ECONNREFUSED'')),
                getIssuesConcurrently :=
                  (\<lambda>pid st ps inc since. Inl (Error ''connect ECONNREFUSED''))\<rparr>"

text \<open>A file whose frontmatter block cannot be read, a journal with a date that is not one,
  and collaborators whose output directory is read-only.\<close>

definition exBrokenFile :: string where
  "exBrokenFile = ''---\<newline>id 5\<newline>---\<newline>Old notes''"

definition exBrokenStore :: store where
  "exBrokenStore = emptyStore(exPath7 \<mapsto> exBrokenFile)"

definition exBadDateIssue :: RedmineIssue where
  "exBadDateIssue =
     exIssue 7
       (Some [\<lparr>j_id = 3, j_user_name = ''Ann'', j_notes = Some ''Hi'',
               j_created_on = ''yesterday'', details = None\<rparr>])
       ''2024-01-15T10:30:00Z''"

definition readOnlyEnv :: Env where
  "readOnlyEnv =
     (refEnv [exIssue7])\<lparr>writeFault := (\<lambda>p. Some (Error ''EACCES: permission denied''))\<rparr>"

text \<open>Issue 42 with a comment (journal 10) and a later change-only journal 11 whose note is
  empty and which carries one field-change record.\<close>

definition exJ10 :: RedmineJournal where
  "exJ10 =
     \<lparr>j_id = 10, j_user_name = ''Bob'', j_notes = Some ''Hello'',
      j_created_on = ''2024-01-15T10:30:00Z'', details = None\<rparr>"

definition exJ11 :: RedmineJournal where
  "exJ11 =
     \<lparr>j_id = 11, j_user_name = ''Ann'', j_notes = Some [],
      j_created_on = ''2024-01-16T10:30:00Z'',
      details = Some [\<lparr>d_name = ''status_id'', old_value = Some ''1'', new_value = Some ''2''\<rparr>]\<rparr>"


definition exIssue42b :: RedmineIssue where
  "exIssue42b = exIssue 42 (Some [exJ10, exJ11]) ''2024-01-16T10:30:00Z''"

definition exComment10 :: string where
  "exComment10 = ''## Bob - 2024-01-15 10:30\<newline>\<newline>Hello\<newline>\<newline>---''"

definition exBytes10 :: string where
  "exBytes10 =
     ''---\<newline>id: 42\<newline>subject: Fix bug\<newline>status: New\<newline>priority: Normal\<newline>author: Bob\<newline>created_on: 2024-01-01T00:00:00Z\<newline>updated_on: 2024-01-15T10:30:00Z\<newline>project: P\<newline>tracker: Bug\<newline>lastJournalId: 10\<newline>---\<newline>\<newline>---\<newline>\<newline>Desc\<newline>\<newline><!-- redmine:comments:start -->\<newline>## Bob - 2024-01-15 10:30\<newline>\<newline>Hello\<newline>\<newline>---\<newline><!-- redmine:comments:end -->''"

definition exStore10 :: store where
  "exStore10 = emptyStore(exPath42 \<mapsto> exBytes10)"

definition exBytes11 :: string where
  "exBytes11 =
     ''---\<newline>id: 42\<newline>subject: Fix bug\<newline>status: New\<newline>priority: Normal\<newline>author: Bob\<newline>created_on: 2024-01-01T00:00:00Z\<newline>updated_on: 2024-01-16T10:30:00Z\<newline>project: P\<newline>tracker: Bug\<newline>lastJournalId: 11\<newline>---\<newline>\<newline>---\<newline>\<newline>Desc\<newline>\<newline><!-- redmine:comments:start -->\<newline>## Bob - 2024-01-15 10:30\<newline>\<newline>Hello\<newline>\<newline>---\<newline>\<newline>---\<newline>\<newline>\<newline><!-- redmine:comments:end -->''"

definition exBytes11fresh :: string where
  "exBytes11fresh =
     ''---\<newline>id: 42\<newline>subject: Fix bug\<newline>status: New\<newline>priority: Normal\<newline>author: Bob\<newline>created_on: 2024-01-01T00:00:00Z\<newline>updated_on: 2024-01-16T10:30:00Z\<newline>project: P\<newline>tracker: Bug\<newline>lastJournalId: 11\<newline>---\<newline>\<newline>---\<newline>\<newline>Desc\<newline>\<newline><!-- redmine:comments:start -->\<newline>## Bob - 2024-01-15 10:30\<newline>\<newline>Hello\<newline>\<newline>---\<newline><!-- redmine:comments:end -->''"

definition exParsed10 :: ParsedMarkdown where
  "exParsed10 =
     \<lparr>frontmatter =
        [(''id'', JNum 42), (''subject'', JStr ''Fix bug''), (''status'', JStr ''New''),
         (''priority'', JStr ''Normal''), (''author'', JStr ''Bob''),
         (''created_on'', JStr ''2024-01-01T00:00:00Z''),
         (''updated_on'', JStr ''2024-01-15T10:30:00Z''),
         (''project'', JStr ''P''), (''tracker'', JStr ''Bug''), (''lastJournalId'', JNum 10)],
      content = ''\<newline>---\<newline>\<newline>Desc\<newline>\<newline>'',
      comments = Some exComment10,
      rawContent = exBytes10\<rparr>"


text \<open>A configuration with a concurrency that the schema of \<^verbatim>\<open>config.ts\<close> accepts (a number
  from 1 to 10) and the limiter does not, and a project of two issues, the first of which
  cannot be rendered.\<close>

definition exFractionConfig :: RedmineConfig where
  "exFractionConfig = refConfig\<lparr>concurrency := 3 / 2\<rparr>"

definition exIssue8 :: RedmineIssue where
  "exIssue8 = exIssue 8 None ''2024-01-15T10:30:00Z''"

definition exFailed7 :: SyncIssueResult where
  "exFailed7 =
     \<lparr>success = False, issueId = 7, filename = [], action = skipped,
      message = ''Failed to sync issue 7: Invalid time value'', changes = None\<rparr>"

definition exCreated8 :: SyncIssueResult where
  "exCreated8 =
     \<lparr>success = True, issueId = 8, filename = ''8-fix-bug.md'', action = created,
      message = ''Successfully created issue 8'',
      changes = Some \<lparr>ch_content = True, ch_comments = False, ch_frontmatter = True\<rparr>\<rparr>"








section \<open>Properties of the codec\<close>

declare natToString.simps [simp del]


text \<open>
  C6. When the end anchor comes before the start anchor, the comments value is absent, but
  the content is not the body: \<open>removeCommentsSection\<close> has no test of the order of the
  anchors, keeps the text up to the start anchor and appends the trimmed text after the
  end anchor, so the stretch between the two anchors occurs twice.
\<close>

theorem removeCommentsSection_reversed_anchors:
  "extractCommentsSection exReversedAnchors = None \<and>
   removeCommentsSection exReversedAnchors
     = ''A<!-- redmine:comments:end -->BB<!-- redmine:comments:start -->C'' \<and>
   removeCommentsSection exReversedAnchors \<noteq> exReversedAnchors"
  by code_simp

text \<open>
  C10. Serialization writes the frontmatter block exactly when the mapping has a key, and
  the comments block with its two anchors exactly when the comments value is a non-empty
  string; with the empty string it writes the same bytes as with no comments value.
\<close>

theorem buildMarkdownContent_blocks:
  "(md_frontmatter d = [] \<and> (md_comments d = None \<or> md_comments d = Some []) \<longrightarrow>
      buildMarkdownContent env d cfg = Inr (md_content d))
   \<and> (md_frontmatter d = [] \<and> md_comments d = Some c \<and> c \<noteq> [] \<longrightarrow>
      buildMarkdownContent env d cfg =
        Inr (md_content d @ ''\<newline>\<newline>'' @ anchor_start (anchors cfg) @ ''\<newline>'' @ c
             @ ''\<newline>'' @ anchor_end (anchors cfg)))
   \<and> (md_frontmatter d \<noteq> [] \<and> stringify env (md_frontmatter d) = Inr y
        \<and> (md_comments d = None \<or> md_comments d = Some []) \<longrightarrow>
      buildMarkdownContent env d cfg =
        Inr (''---\<newline>'' @ stripDelimiters y @ ''---\<newline>\<newline>'' @ md_content d))
   \<and> (md_frontmatter d \<noteq> [] \<and> stringify env (md_frontmatter d) = Inr y
        \<and> md_comments d = Some c \<and> c \<noteq> [] \<longrightarrow>
      buildMarkdownContent env d cfg =
        Inr (''---\<newline>'' @ stripDelimiters y @ ''---\<newline>\<newline>'' @ md_content d
             @ ''\<newline>\<newline>'' @ anchor_start (anchors cfg) @ ''\<newline>'' @ c
             @ ''\<newline>'' @ anchor_end (anchors cfg)))
   \<and> buildMarkdownContent env (d\<lparr>md_comments := Some []\<rparr>) cfg
       = buildMarkdownContent env (d\<lparr>md_comments := None\<rparr>) cfg"
  by (auto simp: buildMarkdownContent_def commentsBlock_def split: sum.splits)

theorem buildMarkdownContent_blocks_witness:
  "(md_frontmatter exDocPlain = [] \<and> md_comments exDocPlain = None)
   \<and> buildMarkdownContent (refEnv []) exDocPlain (commentsConfig refConfig) = Inr ''# Test Content''
   \<and> (md_frontmatter exDocFull \<noteq> []
        \<and> stringify (refEnv []) (md_frontmatter exDocFull)
            = Inr ''---\<newline>id: 123\<newline>subject: Test\<newline>---\<newline>\<newline>''
        \<and> md_comments exDocFull = Some ''## Comment\<newline>This is a comment.'')
   \<and> buildMarkdownContent (refEnv []) exDocFull (commentsConfig refConfig)
       = Inr (''---\<newline>''
              @ stripDelimiters ''---\<newline>id: 123\<newline>subject: Test\<newline>---\<newline>\<newline>''
              @ ''---\<newline>\<newline>'' @ ''# Test Content''
              @ ''\<newline>\<newline>'' @ ''<!-- redmine:comments:start -->'' @ ''\<newline>''
              @ ''## Comment\<newline>This is a comment.''
              @ ''\<newline>'' @ ''<!-- redmine:comments:end -->'')"
proof -
  have h1: "md_frontmatter exDocPlain = [] \<and> md_comments exDocPlain = None"
    by (simp add: exDocPlain_def)
  have h2: "md_frontmatter exDocFull \<noteq> []
        \<and> stringify (refEnv []) (md_frontmatter exDocFull)
            = Inr ''---\<newline>id: 123\<newline>subject: Test\<newline>---\<newline>\<newline>''
        \<and> md_comments exDocFull = Some ''## Comment\<newline>This is a comment.''"
    by code_simp
  have a: "anchor_start (anchors (commentsConfig refConfig)) = ''<!-- redmine:comments:start -->''"
    "anchor_end (anchors (commentsConfig refConfig)) = ''<!-- redmine:comments:end -->''"
    "md_content exDocPlain = ''# Test Content''" "md_content exDocFull = ''# Test Content''"
    by (simp_all add: refConfig_def exDocPlain_def exDocFull_def)
  from h1 h2 a
    buildMarkdownContent_blocks [of exDocPlain "refEnv []" "commentsConfig refConfig"]
    buildMarkdownContent_blocks [of exDocFull "refEnv []" "commentsConfig refConfig"
       "''## Comment\<newline>This is a comment.''"
       "''---\<newline>id: 123\<newline>subject: Test\<newline>---\<newline>\<newline>''"]
  show ?thesis by simp
qed

section \<open>Properties of the string primitives\<close>

declare stripUnits.simps [simp del]











section \<open>Properties of the issue sync decision engine\<close>

text \<open>What the constructor throws reaches the caller; once the client exists, nothing does.\<close>

lemma syncIssue_throws:
  "newRedmineApiClient env cfg = Inl e \<Longrightarrow> syncIssue env n cfg opts st = Inl e"
  by (simp add: syncIssue_def)

lemma syncIssue_constructed:
  "syncIssue env n cfg opts st = Inr out \<Longrightarrow> newRedmineApiClient env cfg = Inr ()"
  by (cases "newRedmineApiClient env cfg") (auto simp: syncIssue_def)

lemma syncIssue_returns:
  "newRedmineApiClient env cfg = Inr () \<Longrightarrow> \<exists>r st'. syncIssue env n cfg opts st = Inr (r, st')"
  by (cases "syncIssueTry env n cfg opts st") (auto simp: syncIssue_def)

lemma syncIssue_catch:
  "newRedmineApiClient env cfg = Inr () \<Longrightarrow> syncIssueTry env n cfg opts st = Inl e \<Longrightarrow>
   syncIssue env n cfg opts st
     = Inr (\<lparr>success = False, issueId = n, filename = [], action = skipped,
             message = ''Failed to sync issue '' @ numToString n @ '': '' @ errMessage e,
             changes = None\<rparr>, st)"
  by (simp add: syncIssue_def)

lemma syncIssue_of_try:
  "newRedmineApiClient env cfg = Inr () \<Longrightarrow> syncIssueTry env n cfg opts st = Inr out \<Longrightarrow>
   syncIssue env n cfg opts st = Inr out"
  by (simp add: syncIssue_def)

lemma syncIssueTry_fetch_error:
  "getIssue env n (defaultInclude cfg) = Inl e \<Longrightarrow> syncIssueTry env n cfg opts st = Inl e"
  by (simp add: syncIssueTry_def)

lemma syncIssueTry_read_error:
  assumes "getIssue env n (defaultInclude cfg) = Inr issue"
    and "readMarkdownFile env st (targetPath env cfg opts issue) = Inl e"
  shows "syncIssueTry env n cfg opts st = Inl e"
  using assms by (simp add: syncIssueTry_def Let_def targetPath_def targetName_def)

lemma syncIssueTry_conflict:
  assumes "getIssue env n (defaultInclude cfg) = Inr issue"
    and "readMarkdownFile env st (targetPath env cfg opts issue) = Inr ex"
    and "conflict ex issue"
  shows "syncIssueTry env n cfg opts st =
     Inr (\<lparr>success = False, issueId = i_id issue, filename = targetName env cfg issue,
           action = skipped,
           message = ''File '' @ targetName env cfg issue @ '' contains issue ''
                     @ numToString (the (extractIssueIdFromFrontmatter (frontmatter ex)))
                     @ '', not '' @ numToString (i_id issue),
           changes = None\<rparr>, st)"
  using assms by (simp add: syncIssueTry_def Let_def targetPath_def targetName_def conflict_def)


lemma syncIssueTry_merge_error:
  assumes "getIssue env n (defaultInclude cfg) = Inr issue"
    and "readMarkdownFile env st (targetPath env cfg opts issue) = Inr ex"
    and "\<not> conflict ex issue" and "changed env issue ex"
    and "resolveComments env (commentsConfig cfg)
           (shouldUpdateComments env (journalsOrEmpty issue) (frontmatter ex))
           issue (extractLastJournalId (frontmatter ex)) (comments ex) = Inl e"
  shows "syncIssueTry env n cfg opts st = Inl e"
  using assms
  by (auto simp: syncIssueTry_def Let_def targetPath_def targetName_def conflict_def changed_def)

lemma syncIssueTry_changed:
  assumes "getIssue env n (defaultInclude cfg) = Inr issue"
    and "readMarkdownFile env st (targetPath env cfg opts issue) = Inr ex"
    and "\<not> conflict ex issue" and "changed env issue ex"
    and "resolveComments env (commentsConfig cfg)
           (shouldUpdateComments env (journalsOrEmpty issue) (frontmatter ex))
           issue (extractLastJournalId (frontmatter ex)) (comments ex) = Inr cm"
  shows "syncIssueTry env n cfg opts st =
     (let act = (if numTruthy (extractIssueIdFromFrontmatter (frontmatter ex))
                 then updated else created)
      in if dryRun opts then
           Inr (\<lparr>success = True, issueId = i_id issue, filename = targetName env cfg issue,
                 action = act,
                 message = ''Would '' @ actionName act @ '' issue '' @ numToString n
                           @ '' (dry run)'',
                 changes = Some (changesOf env issue ex)\<rparr>, st)
         else (case writeMarkdownFile env st (targetPath env cfg opts issue)
                      (documentOf issue cm) (commentsConfig cfg) of
                 Inl e \<Rightarrow> Inl e
               | Inr st' \<Rightarrow>
                   Inr (\<lparr>success = True, issueId = i_id issue,
                         filename = targetName env cfg issue, action = act,
                         message = ''Successfully '' @ actionName act @ '' issue ''
                                   @ numToString n,
                         changes = Some (changesOf env issue ex)\<rparr>, st')))"
  using assms
  by (auto simp: syncIssueTry_def Let_def targetPath_def targetName_def conflict_def changed_def
      changesOf_def documentOf_def split: sum.splits)

lemma writeMarkdownFile_ok:
  assumes "mkdirFault env p = None" and "buildMarkdownContent env d cfg = Inr bytes"
    and "writeFault env p = None"
  shows "writeMarkdownFile env st p d cfg = Inr (st(p \<mapsto> bytes))"
  using assms by (simp add: writeMarkdownFile_def)


text \<open>A run leaves the files as they are unless it reports a performed creation or update.\<close>

lemma syncIssueTry_store:
  assumes "syncIssueTry env n cfg opts st = Inr (r, st')"
  shows "dryRun opts \<or> action r = skipped \<longrightarrow> st' = st"
  using assms
  by (auto simp: syncIssueTry_def Let_def split: sum.splits if_splits)

lemma syncIssue_store:
  assumes "syncIssue env n cfg opts st = Inr (r, st')"
  shows "dryRun opts \<or> action r = skipped \<longrightarrow> st' = st"
proof (cases "syncIssueTry env n cfg opts st")
  case (Inl e)
  with assms syncIssue_constructed [OF assms] show ?thesis by (auto simp: syncIssue_def)
next
  case (Inr out)
  with assms syncIssue_constructed [OF assms]
  have "syncIssueTry env n cfg opts st = Inr (r, st')" by (simp add: syncIssue_def)
  then show ?thesis by (rule syncIssueTry_store)
qed

lemma no_usable_id:
  assumes "map_of fm ''id'' = None
     \<or> (\<exists>v. map_of fm ''id'' = Some v \<and> (\<forall>k. v \<noteq> JNum k)
            \<and> (\<forall>t. v = JStr t \<longrightarrow> parseInt t = None))
     \<or> map_of fm ''id'' = Some (JNum 0)"
  shows "\<not> numTruthy (extractIssueIdFromFrontmatter fm)"
  using assms
  by (auto simp: extractIssueIdFromFrontmatter_def typeofNumberOrString_def getProp_def
      numTruthy_def split: jsval.splits option.splits)

subsection \<open>Runs on the example inputs\<close>

lemma ref_client: "newRedmineApiClient (refEnv remote) refConfig = Inr ()"
  by (simp add: newRedmineApiClient_def refEnv_def refPLimit_def refConfig_def)

lemma ex7_fetch: "getIssue (refEnv [exIssue7]) 7 (defaultInclude refConfig) = Inr exIssue7"
  by code_simp

lemma ex7_path: "targetPath (refEnv [exIssue7]) refConfig exOpts exIssue7 = exPath7"
  by code_simp

lemma ex7_name: "targetName (refEnv [exIssue7]) refConfig exIssue7 = ''7-fix-bug.md''"
  by code_simp

lemma ex7_bytes:
  "buildMarkdownContent (refEnv [exIssue7]) (documentOf exIssue7 None) (commentsConfig refConfig)
     = Inr exBytes7"
  by code_simp

lemma ex7_no_faults:
  "mkdirFault (refEnv [exIssue7]) exPath7 = None \<and> writeFault (refEnv [exIssue7]) exPath7 = None"
  by code_simp

text \<open>
  C2, as stated, fails for a recorded id of 0: the file records issue 0, the fetched issue
  is 7, and the run overwrites the file and reports success.
\<close>

theorem identity_guard_zero_counterexample:
  "readMarkdownFile (refEnv [exIssue7]) exZeroStore exPath7 = Inr exZeroParsed
   \<and> extractIssueIdFromFrontmatter (frontmatter exZeroParsed) = Some 0
   \<and> i_id exIssue7 = 7
   \<and> success (fst (projr (syncIssue (refEnv [exIssue7]) 7 refConfig exOpts exZeroStore)))
   \<and> action (fst (projr (syncIssue (refEnv [exIssue7]) 7 refConfig exOpts exZeroStore))) = created
   \<and> snd (projr (syncIssue (refEnv [exIssue7]) 7 refConfig exOpts exZeroStore)) exPath7
       = Some exBytes7
   \<and> exZeroStore exPath7 = Some exZeroFile
   \<and> exBytes7 \<noteq> exZeroFile"
  by code_simp

text \<open>
  C2 (amended). When the existing file records a non-zero issue id that differs from the id
  of the fetched issue, the run fails with action \<open>skipped\<close> and a message that names both
  ids, and the files are unchanged. (The client is constructed before anything is fetched;
  the statement is about the calls in which that succeeds.)
\<close>

theorem identity_guard:
  assumes "newRedmineApiClient env cfg = Inr ()"
    and "getIssue env n (defaultInclude cfg) = Inr issue"
    and "readMarkdownFile env st (targetPath env cfg opts issue) = Inr ex"
    and "extractIssueIdFromFrontmatter (frontmatter ex) = Some k"
    and "k \<noteq> 0" and "k \<noteq> i_id issue"
  shows "syncIssue env n cfg opts st =
     Inr (\<lparr>success = False, issueId = i_id issue, filename = targetName env cfg issue,
           action = skipped,
           message = ''File '' @ targetName env cfg issue @ '' contains issue ''
                     @ numToString k @ '', not '' @ numToString (i_id issue),
           changes = None\<rparr>, st)"
proof -
  from assms(4-6) have c: "conflict ex issue" by (simp add: conflict_def numTruthy_def)
  from syncIssueTry_conflict [OF assms(2) assms(3) c] assms(1) assms(4)
  show ?thesis by (simp add: syncIssue_def)
qed

theorem identity_guard_witness:
  "newRedmineApiClient (refEnv [exIssue7]) refConfig = Inr ()
   \<and> getIssue (refEnv [exIssue7]) 7 (defaultInclude refConfig) = Inr exIssue7
   \<and> readMarkdownFile (refEnv [exIssue7]) exFiveStore
        (targetPath (refEnv [exIssue7]) refConfig exOpts exIssue7) = Inr exFiveParsed
   \<and> extractIssueIdFromFrontmatter (frontmatter exFiveParsed) = Some 5
   \<and> (5::int) \<noteq> 0 \<and> 5 \<noteq> i_id exIssue7
   \<and> syncIssue (refEnv [exIssue7]) 7 refConfig exOpts exFiveStore =
       Inr (\<lparr>success = False, issueId = 7, filename = ''7-fix-bug.md'', action = skipped,
             message = ''File 7-fix-bug.md contains issue 5, not 7'', changes = None\<rparr>,
            exFiveStore)"
proof -
  have h: "getIssue (refEnv [exIssue7]) 7 (defaultInclude refConfig) = Inr exIssue7"
    "readMarkdownFile (refEnv [exIssue7]) exFiveStore
        (targetPath (refEnv [exIssue7]) refConfig exOpts exIssue7) = Inr exFiveParsed"
    "extractIssueIdFromFrontmatter (frontmatter exFiveParsed) = Some 5"
    "(5::int) \<noteq> 0" "5 \<noteq> i_id exIssue7"
    by code_simp+
  have v: "numToString 5 = ''5''" "numToString (i_id exIssue7) = ''7''" "i_id exIssue7 = 7"
    by code_simp+
  from identity_guard [OF ref_client h] ref_client h v ex7_name show ?thesis by simp
qed

text \<open>
  C8. A dry run never changes the files; and when it reaches a detected change, it reports
  success with the action that a real run would take: \<open>created\<close>, with the message
  \<^verbatim>\<open>Would created issue N (dry run)\<close>, when the existing file records no id or the id 0, and
  \<open>updated\<close>, with the message \<^verbatim>\<open>Would updated issue N (dry run)\<close>, when it records another id.
\<close>

theorem dry_run_reports:
  "(dryRun opts \<and> syncIssue env n cfg opts st = Inr (r, st') \<longrightarrow> st' = st)
   \<and> (dryRun opts
        \<and> newRedmineApiClient env cfg = Inr ()
        \<and> getIssue env n (defaultInclude cfg) = Inr issue
        \<and> readMarkdownFile env st (targetPath env cfg opts issue) = Inr ex
        \<and> \<not> conflict ex issue \<and> changed env issue ex
        \<and> resolveComments env (commentsConfig cfg)
             (shouldUpdateComments env (journalsOrEmpty issue) (frontmatter ex))
             issue (extractLastJournalId (frontmatter ex)) (comments ex) = Inr cm
      \<longrightarrow> (extractIssueIdFromFrontmatter (frontmatter ex) = None
              \<or> extractIssueIdFromFrontmatter (frontmatter ex) = Some 0
            \<longrightarrow> syncIssue env n cfg opts st =
                  Inr (\<lparr>success = True, issueId = i_id issue,
                        filename = targetName env cfg issue, action = created,
                        message = ''Would created issue '' @ numToString n @ '' (dry run)'',
                        changes = Some (changesOf env issue ex)\<rparr>, st))
          \<and> ((\<exists>k. extractIssueIdFromFrontmatter (frontmatter ex) = Some k \<and> k \<noteq> 0)
            \<longrightarrow> syncIssue env n cfg opts st =
                  Inr (\<lparr>success = True, issueId = i_id issue,
                        filename = targetName env cfg issue, action = updated,
                        message = ''Would updated issue '' @ numToString n @ '' (dry run)'',
                        changes = Some (changesOf env issue ex)\<rparr>, st)))"
proof -
  have frame: "dryRun opts \<and> syncIssue env n cfg opts st = Inr (r, st') \<longrightarrow> st' = st"
    using syncIssue_store [of env n cfg opts st r st'] by simp
  have report: "syncIssue env n cfg opts st =
             Inr (\<lparr>success = True, issueId = i_id issue, filename = targetName env cfg issue,
                   action = act,
                   message = ''Would '' @ actionName act @ '' issue '' @ numToString n
                             @ '' (dry run)'',
                   changes = Some (changesOf env issue ex)\<rparr>, st)"
    if a: "dryRun opts" "newRedmineApiClient env cfg = Inr ()"
        "getIssue env n (defaultInclude cfg) = Inr issue"
        "readMarkdownFile env st (targetPath env cfg opts issue) = Inr ex"
        "\<not> conflict ex issue" "changed env issue ex"
        "resolveComments env (commentsConfig cfg)
             (shouldUpdateComments env (journalsOrEmpty issue) (frontmatter ex))
             issue (extractLastJournalId (frontmatter ex)) (comments ex) = Inr cm"
      and act: "act = (if numTruthy (extractIssueIdFromFrontmatter (frontmatter ex))
                  then updated else created)"
    for act
  proof -
    have "syncIssueTry env n cfg opts st =
       Inr (\<lparr>success = True, issueId = i_id issue, filename = targetName env cfg issue,
             action = act,
             message = ''Would '' @ actionName act @ '' issue '' @ numToString n @ '' (dry run)'',
             changes = Some (changesOf env issue ex)\<rparr>, st)"
      using syncIssueTry_changed [OF a(3) a(4) a(5) a(6) a(7)] a(1) act by (simp add: Let_def)
    with a(2) show ?thesis by (rule syncIssue_of_try)
  qed
  have cr: "syncIssue env n cfg opts st =
             Inr (\<lparr>success = True, issueId = i_id issue, filename = targetName env cfg issue,
                   action = created,
                   message = ''Would created issue '' @ numToString n @ '' (dry run)'',
                   changes = Some (changesOf env issue ex)\<rparr>, st)"
    if a: "dryRun opts" "newRedmineApiClient env cfg = Inr ()"
        "getIssue env n (defaultInclude cfg) = Inr issue"
        "readMarkdownFile env st (targetPath env cfg opts issue) = Inr ex"
        "\<not> conflict ex issue" "changed env issue ex"
        "resolveComments env (commentsConfig cfg)
             (shouldUpdateComments env (journalsOrEmpty issue) (frontmatter ex))
             issue (extractLastJournalId (frontmatter ex)) (comments ex) = Inr cm"
      and i: "extractIssueIdFromFrontmatter (frontmatter ex) = None
          \<or> extractIssueIdFromFrontmatter (frontmatter ex) = Some 0"
  proof -
    from i have "created = (if numTruthy (extractIssueIdFromFrontmatter (frontmatter ex))
                  then updated else created)"
      by (auto simp: numTruthy_def)
    from report [OF a this] show ?thesis by (simp add: actionName_def)
  qed
  have up: "syncIssue env n cfg opts st =
             Inr (\<lparr>success = True, issueId = i_id issue, filename = targetName env cfg issue,
                   action = updated,
                   message = ''Would updated issue '' @ numToString n @ '' (dry run)'',
                   changes = Some (changesOf env issue ex)\<rparr>, st)"
    if a: "dryRun opts" "newRedmineApiClient env cfg = Inr ()"
        "getIssue env n (defaultInclude cfg) = Inr issue"
        "readMarkdownFile env st (targetPath env cfg opts issue) = Inr ex"
        "\<not> conflict ex issue" "changed env issue ex"
        "resolveComments env (commentsConfig cfg)
             (shouldUpdateComments env (journalsOrEmpty issue) (frontmatter ex))
             issue (extractLastJournalId (frontmatter ex)) (comments ex) = Inr cm"
      and i: "\<exists>k. extractIssueIdFromFrontmatter (frontmatter ex) = Some k \<and> k \<noteq> 0"
  proof -
    from i have "updated = (if numTruthy (extractIssueIdFromFrontmatter (frontmatter ex))
                  then updated else created)"
      by (auto simp: numTruthy_def)
    from report [OF a this] show ?thesis by (simp add: actionName_def)
  qed
  from frame cr up show ?thesis by blast
qed

theorem dry_run_reports_witness:
  "dryRun exDryOpts
   \<and> newRedmineApiClient (refEnv [exIssue42]) refConfig = Inr ()
   \<and> getIssue (refEnv [exIssue42]) 42 (defaultInclude refConfig) = Inr exIssue42
   \<and> readMarkdownFile (refEnv [exIssue42]) emptyStore
        (targetPath (refEnv [exIssue42]) refConfig exDryOpts exIssue42) = Inr (emptyParsed [])
   \<and> \<not> conflict (emptyParsed []) exIssue42
   \<and> changed (refEnv [exIssue42]) exIssue42 (emptyParsed [])
   \<and> extractIssueIdFromFrontmatter (frontmatter (emptyParsed [])) = None
   \<and> syncIssue (refEnv [exIssue42]) 42 refConfig exDryOpts emptyStore =
       Inr (\<lparr>success = True, issueId = 42, filename = ''42-fix-bug.md'', action = created,
             message = ''Would created issue 42 (dry run)'',
             changes = Some \<lparr>ch_content = True, ch_comments = False, ch_frontmatter = True\<rparr>\<rparr>,
            emptyStore)
   \<and> newRedmineApiClient (refEnv [exIssue42b]) refConfig = Inr ()
   \<and> getIssue (refEnv [exIssue42b]) 42 (defaultInclude refConfig) = Inr exIssue42b
   \<and> readMarkdownFile (refEnv [exIssue42b]) exStore10
        (targetPath (refEnv [exIssue42b]) refConfig exDryOpts exIssue42b) = Inr exParsed10
   \<and> \<not> conflict exParsed10 exIssue42b
   \<and> changed (refEnv [exIssue42b]) exIssue42b exParsed10
   \<and> extractIssueIdFromFrontmatter (frontmatter exParsed10) = Some 42
   \<and> syncIssue (refEnv [exIssue42b]) 42 refConfig exDryOpts exStore10 =
       Inr (\<lparr>success = True, issueId = 42, filename = ''42-fix-bug.md'', action = updated,
             message = ''Would updated issue 42 (dry run)'',
             changes = Some \<lparr>ch_content = True, ch_comments = True, ch_frontmatter = True\<rparr>\<rparr>,
            exStore10)"
proof -
  have h: "dryRun exDryOpts"
    "getIssue (refEnv [exIssue42]) 42 (defaultInclude refConfig) = Inr exIssue42"
    "readMarkdownFile (refEnv [exIssue42]) emptyStore
        (targetPath (refEnv [exIssue42]) refConfig exDryOpts exIssue42) = Inr (emptyParsed [])"
    "\<not> conflict (emptyParsed []) exIssue42"
    "changed (refEnv [exIssue42]) exIssue42 (emptyParsed [])"
    "extractIssueIdFromFrontmatter (frontmatter (emptyParsed [])) = None"
    "resolveComments (refEnv [exIssue42]) (commentsConfig refConfig)
        (shouldUpdateComments (refEnv [exIssue42]) (journalsOrEmpty exIssue42)
           (frontmatter (emptyParsed [])))
        exIssue42 (extractLastJournalId (frontmatter (emptyParsed [])))
        (comments (emptyParsed [])) = Inr None"
    by code_simp+
  have g: "getIssue (refEnv [exIssue42b]) 42 (defaultInclude refConfig) = Inr exIssue42b"
    "readMarkdownFile (refEnv [exIssue42b]) exStore10
        (targetPath (refEnv [exIssue42b]) refConfig exDryOpts exIssue42b) = Inr exParsed10"
    "\<not> conflict exParsed10 exIssue42b"
    "changed (refEnv [exIssue42b]) exIssue42b exParsed10"
    "extractIssueIdFromFrontmatter (frontmatter exParsed10) = Some 42"
    "resolveComments (refEnv [exIssue42b]) (commentsConfig refConfig)
        (shouldUpdateComments (refEnv [exIssue42b]) (journalsOrEmpty exIssue42b)
           (frontmatter exParsed10))
        exIssue42b (extractLastJournalId (frontmatter exParsed10))
        (comments exParsed10) = Inr (Some (exComment10 @ ''\<newline>\<newline>---\<newline>\<newline>''))"
    by code_simp+
  have v: "i_id exIssue42 = 42" "i_id exIssue42b = 42"
    "targetName (refEnv [exIssue42]) refConfig exIssue42 = ''42-fix-bug.md''"
    "targetName (refEnv [exIssue42b]) refConfig exIssue42b = ''42-fix-bug.md''"
    "numToString 42 = ''42''"
    "changesOf (refEnv [exIssue42]) exIssue42 (emptyParsed [])
       = \<lparr>ch_content = True, ch_comments = False, ch_frontmatter = True\<rparr>"
    "changesOf (refEnv [exIssue42b]) exIssue42b exParsed10
       = \<lparr>ch_content = True, ch_comments = True, ch_frontmatter = True\<rparr>"
    by code_simp+
  have c: "syncIssue (refEnv [exIssue42]) 42 refConfig exDryOpts emptyStore =
       Inr (\<lparr>success = True, issueId = 42, filename = ''42-fix-bug.md'', action = created,
             message = ''Would created issue 42 (dry run)'',
             changes = Some \<lparr>ch_content = True, ch_comments = False, ch_frontmatter = True\<rparr>\<rparr>,
            emptyStore)"
    using h v ref_client [of "[exIssue42]"]
      dry_run_reports [where opts = exDryOpts and env = "refEnv [exIssue42]" and n = 42
        and cfg = refConfig and st = emptyStore and issue = exIssue42
        and ex = "emptyParsed []" and cm = None]
    by simp
  have u: "syncIssue (refEnv [exIssue42b]) 42 refConfig exDryOpts exStore10 =
       Inr (\<lparr>success = True, issueId = 42, filename = ''42-fix-bug.md'', action = updated,
             message = ''Would updated issue 42 (dry run)'',
             changes = Some \<lparr>ch_content = True, ch_comments = True, ch_frontmatter = True\<rparr>\<rparr>,
            exStore10)"
    using h(1) g v ref_client [of "[exIssue42b]"]
      dry_run_reports [where opts = exDryOpts and env = "refEnv [exIssue42b]" and n = 42
        and cfg = refConfig and st = exStore10 and issue = exIssue42b
        and ex = exParsed10
        and cm = "Some (exComment10 @ ''\<newline>\<newline>---\<newline>\<newline>'')"]
    by simp
  from h g c u ref_client [of "[exIssue42]"] ref_client [of "[exIssue42b]"]
  show ?thesis by blast
qed

text \<open>
  C9. When the existing frontmatter has no \<open>id\<close> key, or an \<open>id\<close> that is neither a number
  nor a string that parses to a number, or the number 0, the identity check reports no
  conflict, and a change-triggering run that is not a dry run and whose write succeeds
  overwrites the file and reports \<open>created\<close>.
\<close>

theorem missing_id_creates:
  assumes "newRedmineApiClient env cfg = Inr ()"
    and "getIssue env n (defaultInclude cfg) = Inr issue"
    and "readMarkdownFile env st (targetPath env cfg opts issue) = Inr ex"
    and "map_of (frontmatter ex) ''id'' = None
     \<or> (\<exists>v. map_of (frontmatter ex) ''id'' = Some v \<and> (\<forall>k. v \<noteq> JNum k)
            \<and> (\<forall>t. v = JStr t \<longrightarrow> parseInt t = None))
     \<or> map_of (frontmatter ex) ''id'' = Some (JNum 0)"
    and "changed env issue ex" and "\<not> dryRun opts"
    and "resolveComments env (commentsConfig cfg)
             (shouldUpdateComments env (journalsOrEmpty issue) (frontmatter ex))
             issue (extractLastJournalId (frontmatter ex)) (comments ex) = Inr cm"
    and "mkdirFault env (targetPath env cfg opts issue) = None"
    and "buildMarkdownContent env (documentOf issue cm) (commentsConfig cfg) = Inr bytes"
    and "writeFault env (targetPath env cfg opts issue) = None"
  shows "\<not> conflict ex issue
     \<and> syncIssue env n cfg opts st =
           Inr (\<lparr>success = True, issueId = i_id issue, filename = targetName env cfg issue,
                 action = created,
                 message = ''Successfully created issue '' @ numToString n,
                 changes = Some (changesOf env issue ex)\<rparr>,
                st(targetPath env cfg opts issue \<mapsto> bytes))"
proof -
  have nt: "\<not> numTruthy (extractIssueIdFromFrontmatter (frontmatter ex))"
    using assms(4) by (rule no_usable_id)
  then have nc: "\<not> conflict ex issue" by (simp add: conflict_def)
  have w: "writeMarkdownFile env st (targetPath env cfg opts issue) (documentOf issue cm)
             (commentsConfig cfg) = Inr (st(targetPath env cfg opts issue \<mapsto> bytes))"
    using assms(8-10) by (rule writeMarkdownFile_ok)
  from syncIssueTry_changed [OF assms(2) assms(3) nc assms(5) assms(7)] nt assms(6) w
  have "syncIssueTry env n cfg opts st =
     Inr (\<lparr>success = True, issueId = i_id issue, filename = targetName env cfg issue,
           action = created,
           message = ''Successfully created issue '' @ numToString n,
           changes = Some (changesOf env issue ex)\<rparr>,
          st(targetPath env cfg opts issue \<mapsto> bytes))"
    by (simp add: Let_def actionName_def)
  with assms(1) have "syncIssue env n cfg opts st =
     Inr (\<lparr>success = True, issueId = i_id issue, filename = targetName env cfg issue,
           action = created,
           message = ''Successfully created issue '' @ numToString n,
           changes = Some (changesOf env issue ex)\<rparr>,
          st(targetPath env cfg opts issue \<mapsto> bytes))"
    by (rule syncIssue_of_try)
  with nc show ?thesis by simp
qed

theorem missing_id_creates_witness:
  "newRedmineApiClient (refEnv [exIssue7]) refConfig = Inr ()
   \<and> getIssue (refEnv [exIssue7]) 7 (defaultInclude refConfig) = Inr exIssue7
   \<and> readMarkdownFile (refEnv [exIssue7]) exBadIdStore
        (targetPath (refEnv [exIssue7]) refConfig exOpts exIssue7) = Inr exBadIdParsed
   \<and> map_of (frontmatter exBadIdParsed) ''id'' = Some (JStr ''abc'')
   \<and> parseInt ''abc'' = None
   \<and> changed (refEnv [exIssue7]) exIssue7 exBadIdParsed \<and> \<not> dryRun exOpts
   \<and> syncIssue (refEnv [exIssue7]) 7 refConfig exOpts exBadIdStore =
       Inr (\<lparr>success = True, issueId = 7, filename = ''7-fix-bug.md'', action = created,
             message = ''Successfully created issue 7'',
             changes = Some \<lparr>ch_content = True, ch_comments = False, ch_frontmatter = True\<rparr>\<rparr>,
            exBadIdStore(exPath7 \<mapsto> exBytes7))"
proof -
  have h: "getIssue (refEnv [exIssue7]) 7 (defaultInclude refConfig) = Inr exIssue7"
    "readMarkdownFile (refEnv [exIssue7]) exBadIdStore
        (targetPath (refEnv [exIssue7]) refConfig exOpts exIssue7) = Inr exBadIdParsed"
    "changed (refEnv [exIssue7]) exIssue7 exBadIdParsed" "\<not> dryRun exOpts"
    "resolveComments (refEnv [exIssue7]) (commentsConfig refConfig)
        (shouldUpdateComments (refEnv [exIssue7]) (journalsOrEmpty exIssue7) (frontmatter exBadIdParsed))
        exIssue7 (extractLastJournalId (frontmatter exBadIdParsed))
        (comments exBadIdParsed) = Inr None"
    by code_simp+
  have m: "map_of (frontmatter exBadIdParsed) ''id'' = Some (JStr ''abc'')"
    "parseInt ''abc'' = None"
    by code_simp+
  then have d: "map_of (frontmatter exBadIdParsed) ''id'' = None
     \<or> (\<exists>v. map_of (frontmatter exBadIdParsed) ''id'' = Some v \<and> (\<forall>k. v \<noteq> JNum k)
            \<and> (\<forall>t. v = JStr t \<longrightarrow> parseInt t = None))
     \<or> map_of (frontmatter exBadIdParsed) ''id'' = Some (JNum 0)"
    by simp
  have w: "mkdirFault (refEnv [exIssue7]) (targetPath (refEnv [exIssue7]) refConfig exOpts exIssue7) = None"
    "buildMarkdownContent (refEnv [exIssue7]) (documentOf exIssue7 None) (commentsConfig refConfig)
       = Inr exBytes7"
    "writeFault (refEnv [exIssue7]) (targetPath (refEnv [exIssue7]) refConfig exOpts exIssue7) = None"
    using ex7_bytes ex7_no_faults ex7_path by simp_all
  have v: "i_id exIssue7 = 7" "numToString 7 = ''7''"
    "changesOf (refEnv [exIssue7]) exIssue7 exBadIdParsed
       = \<lparr>ch_content = True, ch_comments = False, ch_frontmatter = True\<rparr>"
    by code_simp+
  from missing_id_creates [OF ref_client h(1) h(2) d h(3) h(4) h(5) w] v ex7_name ex7_path
  have "syncIssue (refEnv [exIssue7]) 7 refConfig exOpts exBadIdStore =
       Inr (\<lparr>success = True, issueId = 7, filename = ''7-fix-bug.md'', action = created,
             message = ''Successfully created issue 7'',
             changes = Some \<lparr>ch_content = True, ch_comments = False, ch_frontmatter = True\<rparr>\<rparr>,
            exBadIdStore(exPath7 \<mapsto> exBytes7))"
    by simp
  with ref_client h m show ?thesis by blast
qed

section \<open>Properties of the project sync orchestrator\<close>

lemma syncIssueTry_write_error:
  assumes "getIssue env n (defaultInclude cfg) = Inr issue"
    and "readMarkdownFile env st (targetPath env cfg opts issue) = Inr ex"
    and "\<not> conflict ex issue" and "changed env issue ex"
    and "resolveComments env (commentsConfig cfg)
           (shouldUpdateComments env (journalsOrEmpty issue) (frontmatter ex))
           issue (extractLastJournalId (frontmatter ex)) (comments ex) = Inr cm"
    and "\<not> dryRun opts"
    and "writeMarkdownFile env st (targetPath env cfg opts issue) (documentOf issue cm)
           (commentsConfig cfg) = Inl e"
  shows "syncIssueTry env n cfg opts st = Inl e"
  using syncIssueTry_changed [OF assms(1-5)] assms(6,7) by (simp add: Let_def)

text \<open>An error of the fetch, of the read, of the comment merge or of the write leaves the
  \<^verbatim>\<open>try\<close> block as an exception.\<close>

lemma syncIssueTry_throws:
  assumes "getIssue env n (defaultInclude cfg) = Inl e
     \<or> (getIssue env n (defaultInclude cfg) = Inr issue
          \<and> readMarkdownFile env st (targetPath env cfg opts issue) = Inl e)
     \<or> (getIssue env n (defaultInclude cfg) = Inr issue
          \<and> readMarkdownFile env st (targetPath env cfg opts issue) = Inr ex
          \<and> \<not> conflict ex issue \<and> changed env issue ex
          \<and> resolveComments env (commentsConfig cfg)
               (shouldUpdateComments env (journalsOrEmpty issue) (frontmatter ex))
               issue (extractLastJournalId (frontmatter ex)) (comments ex) = Inl e)
     \<or> (getIssue env n (defaultInclude cfg) = Inr issue
          \<and> readMarkdownFile env st (targetPath env cfg opts issue) = Inr ex
          \<and> \<not> conflict ex issue \<and> changed env issue ex
          \<and> resolveComments env (commentsConfig cfg)
               (shouldUpdateComments env (journalsOrEmpty issue) (frontmatter ex))
               issue (extractLastJournalId (frontmatter ex)) (comments ex) = Inr cm
          \<and> \<not> dryRun opts
          \<and> writeMarkdownFile env st (targetPath env cfg opts issue) (documentOf issue cm)
               (commentsConfig cfg) = Inl e)"
  shows "syncIssueTry env n cfg opts st = Inl e"
  using assms
    syncIssueTry_fetch_error [of env n cfg e opts st]
    syncIssueTry_read_error [of env n cfg issue st opts e]
    syncIssueTry_merge_error [of env n cfg issue st opts ex e]
    syncIssueTry_write_error [of env n cfg issue st opts ex cm e]
  by blast

text \<open>The tally that the callback keeps, over a list of per-issue results.\<close>

lemma recordResult_tally:
  "processed (recordResult sr r) = processed r + 1
   \<and> totalIssues (recordResult sr r) = totalIssues r
   \<and> p_success (recordResult sr r) = p_success r
   \<and> n_created (recordResult sr r)
       = n_created r + (if success sr \<and> action sr = created then 1 else 0)
   \<and> n_updated (recordResult sr r)
       = n_updated r + (if success sr \<and> action sr = updated then 1 else 0)
   \<and> n_skipped (recordResult sr r)
       = n_skipped r + (if success sr \<and> action sr = skipped then 1 else 0)
   \<and> failed (recordResult sr r) = failed r + (if success sr then 0 else 1)
   \<and> errors (recordResult sr r) = errors r @ (if success sr then [] else [errorEntry sr])"
  by (cases "action sr") (auto simp: recordResult_def Let_def errorEntry_def)

lemma succeededWith_Cons:
  "succeededWith a (sr # rs)
     = (if success sr \<and> action sr = a then sr # succeededWith a rs else succeededWith a rs)"
  by (simp add: succeededWith_def)

lemma failures_Cons:
  "failures (sr # rs) = (if success sr then failures rs else sr # failures rs)"
  by (simp add: failures_def)

lemma syncAll_tally:
  assumes c: "newRedmineApiClient env cfg = Inr ()"
  shows "\<exists>r' st'. syncAll env cfg opts issues (r, st) = Inr (r', st')
     \<and> length (issueResults env cfg opts issues st) = length issues
     \<and> processed r' = processed r + length issues
     \<and> totalIssues r' = totalIssues r
     \<and> n_created r'
         = n_created r + length (succeededWith created (issueResults env cfg opts issues st))
     \<and> n_updated r'
         = n_updated r + length (succeededWith updated (issueResults env cfg opts issues st))
     \<and> n_skipped r'
         = n_skipped r + length (succeededWith skipped (issueResults env cfg opts issues st))
     \<and> failed r' = failed r + length (failures (issueResults env cfg opts issues st))
     \<and> errors r' = errors r @ map errorEntry (failures (issueResults env cfg opts issues st))"
proof (induction issues arbitrary: r st)
  case Nil
  show ?case by (simp add: succeededWith_def failures_def)
next
  case (Cons i rest)
  obtain sr st1 where s: "syncIssue env (i_id i) cfg opts st = Inr (sr, st1)"
    using syncIssue_returns [OF c] by blast
  from Cons.IH [of "recordResult sr r" st1]
  obtain r' st' where run: "syncAll env cfg opts rest (recordResult sr r, st1) = Inr (r', st')"
    and t: "length (issueResults env cfg opts rest st1) = length rest"
     "processed r' = processed (recordResult sr r) + length rest"
     "totalIssues r' = totalIssues (recordResult sr r)"
     "n_created r' = n_created (recordResult sr r)
        + length (succeededWith created (issueResults env cfg opts rest st1))"
     "n_updated r' = n_updated (recordResult sr r)
        + length (succeededWith updated (issueResults env cfg opts rest st1))"
     "n_skipped r' = n_skipped (recordResult sr r)
        + length (succeededWith skipped (issueResults env cfg opts rest st1))"
     "failed r' = failed (recordResult sr r)
        + length (failures (issueResults env cfg opts rest st1))"
     "errors r' = errors (recordResult sr r)
        @ map errorEntry (failures (issueResults env cfg opts rest st1))"
    by blast
  have a: "syncAll env cfg opts (i # rest) (r, st) = Inr (r', st')"
    using s run by simp
  have b: "issueResults env cfg opts (i # rest) st = sr # issueResults env cfg opts rest st1"
    using s by simp
  show ?case
    unfolding a b succeededWith_Cons failures_Cons
    using t recordResult_tally [of sr r] by simp
qed

lemma syncProject_throws:
  "newRedmineApiClient env cfg = Inl e \<Longrightarrow> syncProject env cfg popts st = Inl e"
  by (simp add: syncProject_def)

lemma syncProject_returns:
  "newRedmineApiClient env cfg = Inr () \<Longrightarrow> \<exists>pr st'. syncProject env cfg popts st = Inr (pr, st')"
  by (auto simp: syncProject_def Let_def split: sum.splits)

lemma syncProject_constructed:
  "syncProject env cfg popts st = Inr out \<Longrightarrow> newRedmineApiClient env cfg = Inr ()"
  by (cases "newRedmineApiClient env cfg") (auto simp: syncProject_def)

lemma syncProject_listed:
  assumes g: "getIssuesConcurrently env (projectId cfg)
          (orElse (p_status popts) (defaultStatus cfg))
          (natOrElse (pageSize popts) (defaultPageSize cfg)) (defaultInclude cfg)
          (updatedSince popts) = Inr issues"
    and p: "syncProject env cfg popts st = Inr (pr, st')"
    and rs: "rs = issueResults env cfg
                \<lparr>dryRun = p_dryRun popts, optOutputDir = p_outputDir popts\<rparr> issues st"
  shows "length rs = length issues
        \<and> totalIssues pr = length issues \<and> processed pr = length issues
        \<and> n_created pr = length (succeededWith created rs)
        \<and> n_updated pr = length (succeededWith updated rs)
        \<and> n_skipped pr = length (succeededWith skipped rs)
        \<and> failed pr = length (failures rs)
        \<and> errors pr = map errorEntry (failures rs)
        \<and> p_success pr = (failures rs = [])"
proof (cases "issues = []")
  case True
  with g p rs syncProject_constructed [OF p] show ?thesis
    by (auto simp: syncProject_def Let_def initialResult_def succeededWith_def failures_def)
next
  case False
  let ?o = "\<lparr>dryRun = p_dryRun popts, optOutputDir = p_outputDir popts\<rparr>"
  let ?r1 = "initialResult\<lparr>totalIssues := length issues\<rparr>"
  from syncAll_tally [OF syncProject_constructed [OF p], of ?o issues ?r1 st]
  obtain r2 st2 where all: "syncAll env cfg ?o issues (?r1, st) = Inr (r2, st2)"
    and t: "length (issueResults env cfg ?o issues st) = length issues"
      "processed r2 = processed ?r1 + length issues"
      "totalIssues r2 = totalIssues ?r1"
      "n_created r2 = n_created ?r1 + length (succeededWith created (issueResults env cfg ?o issues st))"
      "n_updated r2 = n_updated ?r1 + length (succeededWith updated (issueResults env cfg ?o issues st))"
      "n_skipped r2 = n_skipped ?r1 + length (succeededWith skipped (issueResults env cfg ?o issues st))"
      "failed r2 = failed ?r1 + length (failures (issueResults env cfg ?o issues st))"
      "errors r2 = errors ?r1 @ map errorEntry (failures (issueResults env cfg ?o issues st))"
    by blast
  from g p False all syncProject_constructed [OF p]
  have "pr = r2\<lparr>p_success := (failed r2 = 0)\<rparr>"
    by (auto simp: syncProject_def Let_def)
  with t rs show ?thesis by (simp add: initialResult_def)
qed

lemma syncProject_fetch_failure:
  assumes g: "getIssuesConcurrently env (projectId cfg)
          (orElse (p_status popts) (defaultStatus cfg))
          (natOrElse (pageSize popts) (defaultPageSize cfg)) (defaultInclude cfg)
          (updatedSince popts) = Inl e"
    and p: "syncProject env cfg popts st = Inr (pr, st')"
  shows "\<not> p_success pr \<and> errors pr = [(0, ''Failed to fetch issues: '' @ errMessage e)]
        \<and> processed pr = 0 \<and> failed pr = 0 \<and> st' = st"
  using g p syncProject_constructed [OF p]
  by (auto simp: syncProject_def Let_def initialResult_def)

lemma down_client: "newRedmineApiClient downEnv refConfig = Inr ()"
  by (simp add: newRedmineApiClient_def downEnv_def refEnv_def refPLimit_def refConfig_def)

lemma readOnly_client: "newRedmineApiClient readOnlyEnv refConfig = Inr ()"
  by (simp add: newRedmineApiClient_def readOnlyEnv_def refEnv_def refPLimit_def refConfig_def)

lemma refPLimit_fraction:
  "refPLimit (3 / 2) = Some (Error ''Expected `concurrency` to be a number from 1 and up'')"
proof -
  have "\<lfloor>3 / 2 :: rat\<rfloor> = 1" by (rule floor_unique) simp_all
  then show ?thesis by (simp add: refPLimit_def)
qed

lemma fraction_client:
  "newRedmineApiClient (refEnv remote) exFractionConfig
     = Inl (Error ''Expected `concurrency` to be a number from 1 and up'')"
  by (simp add: newRedmineApiClient_def refEnv_def refPLimit_fraction exFractionConfig_def
      refConfig_def)

text \<open>
  C7, as stated, fails. The client is constructed before the \<^verbatim>\<open>try\<close> block of both
  functions: with a concurrency of 3/2, which the configuration schema accepts, the
  constructor throws and the exception reaches the caller of \<open>syncIssue\<close> and of
  \<open>syncProject\<close>. And when fetching the issue list fails, no issue has failed and the
  project result still has \<open>success = False\<close>.
\<close>

theorem exception_propagates_counterexample:
  "1 \<le> concurrency exFractionConfig \<and> concurrency exFractionConfig \<le> 10
   \<and> syncIssue (refEnv [exIssue7]) 7 exFractionConfig exOpts emptyStore
       = Inl (Error ''Expected `concurrency` to be a number from 1 and up'')
   \<and> syncProject (refEnv [exIssue7]) exFractionConfig exProjectOpts emptyStore
       = Inl (Error ''Expected `concurrency` to be a number from 1 and up'')
   \<and> \<not> p_success (fst (projr (syncProject downEnv refConfig exProjectOpts emptyStore)))
   \<and> failed (fst (projr (syncProject downEnv refConfig exProjectOpts emptyStore))) = 0"
proof -
  have c: "1 \<le> concurrency exFractionConfig \<and> concurrency exFractionConfig \<le> 10"
    by (simp add: exFractionConfig_def)
  have g: "getIssuesConcurrently downEnv (projectId refConfig)
          (orElse (p_status exProjectOpts) (defaultStatus refConfig))
          (natOrElse (pageSize exProjectOpts) (defaultPageSize refConfig))
          (defaultInclude refConfig) (updatedSince exProjectOpts)
        = Inl (Error ''connect ECONNREFUSED'')"
    by code_simp
  obtain pr st' where p: "syncProject downEnv refConfig exProjectOpts emptyStore = Inr (pr, st')"
    using syncProject_returns [OF down_client] by blast
  from syncProject_fetch_failure [OF g p] p
  have "\<not> p_success (fst (projr (syncProject downEnv refConfig exProjectOpts emptyStore)))
   \<and> failed (fst (projr (syncProject downEnv refConfig exProjectOpts emptyStore))) = 0"
    by simp
  with c syncIssue_throws [OF fraction_client] syncProject_throws [OF fraction_client]
  show ?thesis by blast
qed

text \<open>
  C7 (amended). Once the client is constructed, \<open>syncIssue\<close> always returns a result:
  whatever its \<^verbatim>\<open>try\<close> block throws, in particular an error of the fetch, of the read, of the
  comment merge or of the write, comes back as a result with \<open>success = False\<close>, the message
  \<^verbatim>\<open>Failed to sync issue N: ...\<close> and the files unchanged. \<open>syncProject\<close> then always returns a
  result too. When the issue list was fetched, every issue has a result and is processed,
  the counters \<open>created\<close>, \<open>updated\<close>, \<open>skipped\<close> and \<open>failed\<close> count the per-issue results by
  outcome, \<open>errors\<close> lists the id and message of the failed results in order, and \<open>success\<close>
  holds exactly when no issue failed. When fetching the list failed, the result has
  \<open>success = False\<close>, the single error entry with issue id 0, no processed and no failed
  issue, and the files are unchanged.
\<close>

theorem failures_are_results:
  assumes "newRedmineApiClient env cfg = Inr ()"
  shows "(\<exists>r st'. syncIssue env n cfg opts st = Inr (r, st'))
   \<and> (syncIssueTry env n cfg opts st = Inl e \<longrightarrow>
        syncIssue env n cfg opts st
          = Inr (\<lparr>success = False, issueId = n, filename = [], action = skipped,
                  message = ''Failed to sync issue '' @ numToString n @ '': '' @ errMessage e,
                  changes = None\<rparr>, st))
   \<and> (getIssue env n (defaultInclude cfg) = Inl e
        \<or> (getIssue env n (defaultInclude cfg) = Inr issue
             \<and> readMarkdownFile env st (targetPath env cfg opts issue) = Inl e)
        \<or> (getIssue env n (defaultInclude cfg) = Inr issue
             \<and> readMarkdownFile env st (targetPath env cfg opts issue) = Inr ex
             \<and> \<not> conflict ex issue \<and> changed env issue ex
             \<and> resolveComments env (commentsConfig cfg)
                  (shouldUpdateComments env (journalsOrEmpty issue) (frontmatter ex))
                  issue (extractLastJournalId (frontmatter ex)) (comments ex) = Inl e)
        \<or> (getIssue env n (defaultInclude cfg) = Inr issue
             \<and> readMarkdownFile env st (targetPath env cfg opts issue) = Inr ex
             \<and> \<not> conflict ex issue \<and> changed env issue ex
             \<and> resolveComments env (commentsConfig cfg)
                  (shouldUpdateComments env (journalsOrEmpty issue) (frontmatter ex))
                  issue (extractLastJournalId (frontmatter ex)) (comments ex) = Inr cm
             \<and> \<not> dryRun opts
             \<and> writeMarkdownFile env st (targetPath env cfg opts issue) (documentOf issue cm)
                  (commentsConfig cfg) = Inl e)
      \<longrightarrow> syncIssue env n cfg opts st
          = Inr (\<lparr>success = False, issueId = n, filename = [], action = skipped,
                  message = ''Failed to sync issue '' @ numToString n @ '': '' @ errMessage e,
                  changes = None\<rparr>, st))
   \<and> (\<exists>pr st'. syncProject env cfg popts st = Inr (pr, st'))
   \<and> (getIssuesConcurrently env (projectId cfg) (orElse (p_status popts) (defaultStatus cfg))
          (natOrElse (pageSize popts) (defaultPageSize cfg)) (defaultInclude cfg)
          (updatedSince popts) = Inr issues
        \<and> syncProject env cfg popts st = Inr (pr, st')
        \<and> rs = issueResults env cfg
                 \<lparr>dryRun = p_dryRun popts, optOutputDir = p_outputDir popts\<rparr> issues st
      \<longrightarrow> length rs = length issues
          \<and> totalIssues pr = length issues \<and> processed pr = length issues
          \<and> n_created pr = length (succeededWith created rs)
          \<and> n_updated pr = length (succeededWith updated rs)
          \<and> n_skipped pr = length (succeededWith skipped rs)
          \<and> failed pr = length (failures rs)
          \<and> errors pr = map errorEntry (failures rs)
          \<and> p_success pr = (failures rs = [])
          \<and> p_success pr = (failed pr = 0))
   \<and> (getIssuesConcurrently env (projectId cfg) (orElse (p_status popts) (defaultStatus cfg))
          (natOrElse (pageSize popts) (defaultPageSize cfg)) (defaultInclude cfg)
          (updatedSince popts) = Inl e'
        \<and> syncProject env cfg popts st = Inr (pr, st')
      \<longrightarrow> \<not> p_success pr \<and> errors pr = [(0, ''Failed to fetch issues: '' @ errMessage e')]
          \<and> processed pr = 0 \<and> failed pr = 0 \<and> st' = st)"
proof -
  have listed: "length rs = length issues
          \<and> totalIssues pr = length issues \<and> processed pr = length issues
          \<and> n_created pr = length (succeededWith created rs)
          \<and> n_updated pr = length (succeededWith updated rs)
          \<and> n_skipped pr = length (succeededWith skipped rs)
          \<and> failed pr = length (failures rs)
          \<and> errors pr = map errorEntry (failures rs)
          \<and> p_success pr = (failures rs = [])
          \<and> p_success pr = (failed pr = 0)"
    if "getIssuesConcurrently env (projectId cfg) (orElse (p_status popts) (defaultStatus cfg))
          (natOrElse (pageSize popts) (defaultPageSize cfg)) (defaultInclude cfg)
          (updatedSince popts) = Inr issues"
      "syncProject env cfg popts st = Inr (pr, st')"
      "rs = issueResults env cfg
                 \<lparr>dryRun = p_dryRun popts, optOutputDir = p_outputDir popts\<rparr> issues st"
    using syncProject_listed [OF that] by auto
  show ?thesis
    using syncIssue_returns [OF assms, of n opts st]
      syncIssue_catch [OF assms, of n opts st e]
      syncIssueTry_throws [of env n cfg e issue st opts ex cm]
      syncProject_returns [OF assms, of popts st]
      listed
      syncProject_fetch_failure [of env cfg popts e' st pr st']
    by blast
qed

theorem failures_are_results_witness:
  "(newRedmineApiClient downEnv refConfig = Inr ()
    \<and> getIssue downEnv 42 (defaultInclude refConfig) = Inl (Error ''connect ECONNREFUSED'')
    \<and> syncIssue downEnv 42 refConfig exOpts emptyStore
        = Inr (\<lparr>success = False, issueId = 42, filename = [], action = skipped,
                message = ''Failed to sync issue 42: connect ECONNREFUSED'',
                changes = None\<rparr>, emptyStore))
   \<and> (newRedmineApiClient (refEnv [exIssue7]) refConfig = Inr ()
    \<and> getIssue (refEnv [exIssue7]) 7 (defaultInclude refConfig) = Inr exIssue7
    \<and> readMarkdownFile (refEnv [exIssue7]) exBrokenStore
         (targetPath (refEnv [exIssue7]) refConfig exOpts exIssue7)
        = Inl (Error ''can not read the frontmatter block'')
    \<and> syncIssue (refEnv [exIssue7]) 7 refConfig exOpts exBrokenStore
        = Inr (\<lparr>success = False, issueId = 7, filename = [], action = skipped,
                message = ''Failed to sync issue 7: can not read the frontmatter block'',
                changes = None\<rparr>, exBrokenStore))
   \<and> (newRedmineApiClient (refEnv [exBadDateIssue]) refConfig = Inr ()
    \<and> getIssue (refEnv [exBadDateIssue]) 7 (defaultInclude refConfig) = Inr exBadDateIssue
    \<and> readMarkdownFile (refEnv [exBadDateIssue]) emptyStore
         (targetPath (refEnv [exBadDateIssue]) refConfig exOpts exBadDateIssue)
        = Inr (emptyParsed [])
    \<and> \<not> conflict (emptyParsed []) exBadDateIssue
    \<and> changed (refEnv [exBadDateIssue]) exBadDateIssue (emptyParsed [])
    \<and> resolveComments (refEnv [exBadDateIssue]) (commentsConfig refConfig)
         (shouldUpdateComments (refEnv [exBadDateIssue]) (journalsOrEmpty exBadDateIssue)
            (frontmatter (emptyParsed [])))
         exBadDateIssue (extractLastJournalId (frontmatter (emptyParsed [])))
         (comments (emptyParsed [])) = Inl (Error ''Invalid time value'')
    \<and> syncIssue (refEnv [exBadDateIssue]) 7 refConfig exOpts emptyStore
        = Inr (\<lparr>success = False, issueId = 7, filename = [], action = skipped,
                message = ''Failed to sync issue 7: Invalid time value'',
                changes = None\<rparr>, emptyStore))
   \<and> (newRedmineApiClient readOnlyEnv refConfig = Inr ()
    \<and> getIssue readOnlyEnv 7 (defaultInclude refConfig) = Inr exIssue7
    \<and> readMarkdownFile readOnlyEnv emptyStore (targetPath readOnlyEnv refConfig exOpts exIssue7)
        = Inr (emptyParsed [])
    \<and> \<not> conflict (emptyParsed []) exIssue7
    \<and> changed readOnlyEnv exIssue7 (emptyParsed [])
    \<and> resolveComments readOnlyEnv (commentsConfig refConfig)
         (shouldUpdateComments readOnlyEnv (journalsOrEmpty exIssue7)
            (frontmatter (emptyParsed [])))
         exIssue7 (extractLastJournalId (frontmatter (emptyParsed [])))
         (comments (emptyParsed [])) = Inr None
    \<and> \<not> dryRun exOpts
    \<and> writeMarkdownFile readOnlyEnv emptyStore (targetPath readOnlyEnv refConfig exOpts exIssue7)
         (documentOf exIssue7 None) (commentsConfig refConfig)
        = Inl (Error ''EACCES: permission denied'')
    \<and> syncIssue readOnlyEnv 7 refConfig exOpts emptyStore
        = Inr (\<lparr>success = False, issueId = 7, filename = [], action = skipped,
                message = ''Failed to sync issue 7: EACCES: permission denied'',
                changes = None\<rparr>, emptyStore))
   \<and> (newRedmineApiClient (refEnv [exBadDateIssue, exIssue8]) refConfig = Inr ()
    \<and> getIssuesConcurrently (refEnv [exBadDateIssue, exIssue8]) (projectId refConfig)
          (orElse (p_status exProjectOpts) (defaultStatus refConfig))
          (natOrElse (pageSize exProjectOpts) (defaultPageSize refConfig))
          (defaultInclude refConfig) (updatedSince exProjectOpts)
        = Inr [exBadDateIssue, exIssue8]
    \<and> issueResults (refEnv [exBadDateIssue, exIssue8]) refConfig
          \<lparr>dryRun = p_dryRun exProjectOpts, optOutputDir = p_outputDir exProjectOpts\<rparr>
          [exBadDateIssue, exIssue8] emptyStore
        = [exFailed7, exCreated8]
    \<and> \<not> success exFailed7 \<and> success exCreated8 \<and> action exCreated8 = created
    \<and> processed (fst (projr (syncProject (refEnv [exBadDateIssue, exIssue8]) refConfig
          exProjectOpts emptyStore))) = 2
    \<and> n_created (fst (projr (syncProject (refEnv [exBadDateIssue, exIssue8]) refConfig
          exProjectOpts emptyStore))) = 1
    \<and> n_updated (fst (projr (syncProject (refEnv [exBadDateIssue, exIssue8]) refConfig
          exProjectOpts emptyStore))) = 0
    \<and> n_skipped (fst (projr (syncProject (refEnv [exBadDateIssue, exIssue8]) refConfig
          exProjectOpts emptyStore))) = 0
    \<and> failed (fst (projr (syncProject (refEnv [exBadDateIssue, exIssue8]) refConfig
          exProjectOpts emptyStore))) = 1
    \<and> errors (fst (projr (syncProject (refEnv [exBadDateIssue, exIssue8]) refConfig
          exProjectOpts emptyStore)))
        = [(7, ''Failed to sync issue 7: Invalid time value'')]
    \<and> \<not> p_success (fst (projr (syncProject (refEnv [exBadDateIssue, exIssue8]) refConfig
          exProjectOpts emptyStore))))
   \<and> (getIssuesConcurrently downEnv (projectId refConfig)
          (orElse (p_status exProjectOpts) (defaultStatus refConfig))
          (natOrElse (pageSize exProjectOpts) (defaultPageSize refConfig))
          (defaultInclude refConfig) (updatedSince exProjectOpts)
        = Inl (Error ''connect ECONNREFUSED'')
    \<and> \<not> p_success (fst (projr (syncProject downEnv refConfig exProjectOpts emptyStore)))
    \<and> errors (fst (projr (syncProject downEnv refConfig exProjectOpts emptyStore)))
        = [(0, ''Failed to fetch issues: connect ECONNREFUSED'')]
    \<and> processed (fst (projr (syncProject downEnv refConfig exProjectOpts emptyStore))) = 0
    \<and> snd (projr (syncProject downEnv refConfig exProjectOpts emptyStore)) = emptyStore)"
proof -
  have m: "numToString 42 = ''42''" "numToString 7 = ''7''" by code_simp+
  have a: "getIssue downEnv 42 (defaultInclude refConfig) = Inl (Error ''connect ECONNREFUSED'')"
    by code_simp
  have a': "syncIssue downEnv 42 refConfig exOpts emptyStore
        = Inr (\<lparr>success = False, issueId = 42, filename = [], action = skipped,
                message = ''Failed to sync issue 42: connect ECONNREFUSED'',
                changes = None\<rparr>, emptyStore)"
    using a m failures_are_results [OF down_client, where n = 42 and opts = exOpts
        and st = emptyStore and e = "Error ''connect ECONNREFUSED''"]
    by simp
  have b: "getIssue (refEnv [exIssue7]) 7 (defaultInclude refConfig) = Inr exIssue7
    \<and> readMarkdownFile (refEnv [exIssue7]) exBrokenStore
         (targetPath (refEnv [exIssue7]) refConfig exOpts exIssue7)
        = Inl (Error ''can not read the frontmatter block'')"
    by code_simp
  have b': "syncIssue (refEnv [exIssue7]) 7 refConfig exOpts exBrokenStore
        = Inr (\<lparr>success = False, issueId = 7, filename = [], action = skipped,
                message = ''Failed to sync issue 7: can not read the frontmatter block'',
                changes = None\<rparr>, exBrokenStore)"
    using b m failures_are_results [OF ref_client, where remote1 = "[exIssue7]" and n = 7
        and opts = exOpts and st = exBrokenStore
        and e = "Error ''can not read the frontmatter block''" and issue = exIssue7]
    by simp
  have c: "getIssue (refEnv [exBadDateIssue]) 7 (defaultInclude refConfig) = Inr exBadDateIssue
    \<and> readMarkdownFile (refEnv [exBadDateIssue]) emptyStore
         (targetPath (refEnv [exBadDateIssue]) refConfig exOpts exBadDateIssue)
        = Inr (emptyParsed [])
    \<and> \<not> conflict (emptyParsed []) exBadDateIssue
    \<and> changed (refEnv [exBadDateIssue]) exBadDateIssue (emptyParsed [])
    \<and> resolveComments (refEnv [exBadDateIssue]) (commentsConfig refConfig)
         (shouldUpdateComments (refEnv [exBadDateIssue]) (journalsOrEmpty exBadDateIssue)
            (frontmatter (emptyParsed [])))
         exBadDateIssue (extractLastJournalId (frontmatter (emptyParsed [])))
         (comments (emptyParsed [])) = Inl (Error ''Invalid time value'')"
    by code_simp
  have c': "syncIssue (refEnv [exBadDateIssue]) 7 refConfig exOpts emptyStore
        = Inr (\<lparr>success = False, issueId = 7, filename = [], action = skipped,
                message = ''Failed to sync issue 7: Invalid time value'',
                changes = None\<rparr>, emptyStore)"
    using c m failures_are_results [OF ref_client, where remote1 = "[exBadDateIssue]"
        and n = 7 and opts = exOpts and st = emptyStore
        and e = "Error ''Invalid time value''" and issue = exBadDateIssue
        and ex = "emptyParsed []"]
    by simp
  have d0: "getIssue readOnlyEnv 7 (defaultInclude refConfig) = Inr exIssue7
    \<and> readMarkdownFile readOnlyEnv emptyStore (targetPath readOnlyEnv refConfig exOpts exIssue7)
        = Inr (emptyParsed [])
    \<and> \<not> conflict (emptyParsed []) exIssue7
    \<and> changed readOnlyEnv exIssue7 (emptyParsed [])
    \<and> resolveComments readOnlyEnv (commentsConfig refConfig)
         (shouldUpdateComments readOnlyEnv (journalsOrEmpty exIssue7)
            (frontmatter (emptyParsed [])))
         exIssue7 (extractLastJournalId (frontmatter (emptyParsed [])))
         (comments (emptyParsed [])) = Inr None
    \<and> \<not> dryRun exOpts"
    by code_simp
  have d1: "writeMarkdownFile readOnlyEnv emptyStore
         (targetPath readOnlyEnv refConfig exOpts exIssue7)
         (documentOf exIssue7 None) (commentsConfig refConfig)
        = Inl (Error ''EACCES: permission denied'')"
  proof -
    have "mkdirFault readOnlyEnv (targetPath readOnlyEnv refConfig exOpts exIssue7) = None"
      "buildMarkdownContent readOnlyEnv (documentOf exIssue7 None) (commentsConfig refConfig)
         = Inr exBytes7"
      "writeFault readOnlyEnv (targetPath readOnlyEnv refConfig exOpts exIssue7)
         = Some (Error ''EACCES: permission denied'')"
      by code_simp+
    then show ?thesis by (simp add: writeMarkdownFile_def)
  qed
  have d': "syncIssue readOnlyEnv 7 refConfig exOpts emptyStore
        = Inr (\<lparr>success = False, issueId = 7, filename = [], action = skipped,
                message = ''Failed to sync issue 7: EACCES: permission denied'',
                changes = None\<rparr>, emptyStore)"
    using d0 d1 m failures_are_results [OF readOnly_client, where n = 7 and opts = exOpts
        and st = emptyStore and e = "Error ''EACCES: permission denied''"
        and issue = exIssue7 and ex = "emptyParsed []" and cm = None]
    by simp
  let ?env = "refEnv [exBadDateIssue, exIssue8]"
  let ?p = "syncProject ?env refConfig exProjectOpts emptyStore"
  have f0: "getIssuesConcurrently ?env (projectId refConfig)
          (orElse (p_status exProjectOpts) (defaultStatus refConfig))
          (natOrElse (pageSize exProjectOpts) (defaultPageSize refConfig))
          (defaultInclude refConfig) (updatedSince exProjectOpts)
        = Inr [exBadDateIssue, exIssue8]"
    by code_simp
  have f1: "?p = Inr (fst (projr ?p), snd (projr ?p))"
    using syncProject_returns [OF ref_client, of "[exBadDateIssue, exIssue8]" exProjectOpts
        emptyStore]
    by auto
  have f2: "issueResults ?env refConfig
          \<lparr>dryRun = p_dryRun exProjectOpts, optOutputDir = p_outputDir exProjectOpts\<rparr>
          [exBadDateIssue, exIssue8] emptyStore
        = [exFailed7, exCreated8]"
    by code_simp
  have f3: "\<not> success exFailed7" "success exCreated8" "action exCreated8 = created"
    "errorEntry exFailed7 = (7, ''Failed to sync issue 7: Invalid time value'')"
    by (simp_all add: exFailed7_def exCreated8_def errorEntry_def)
  have f': "processed (fst (projr ?p)) = 2 \<and> n_created (fst (projr ?p)) = 1
      \<and> n_updated (fst (projr ?p)) = 0 \<and> n_skipped (fst (projr ?p)) = 0
      \<and> failed (fst (projr ?p)) = 1
      \<and> errors (fst (projr ?p)) = [(7, ''Failed to sync issue 7: Invalid time value'')]
      \<and> \<not> p_success (fst (projr ?p))"
    using f0 f1 f3 failures_are_results [OF ref_client,
        where remote1 = "[exBadDateIssue, exIssue8]"
        and st = emptyStore and popts = exProjectOpts
        and issues = "[exBadDateIssue, exIssue8]"
        and pr = "fst (projr ?p)" and st' = "snd (projr ?p)"
        and rs = "[exFailed7, exCreated8]"]
    unfolding f2
    by (simp add: succeededWith_def failures_def)
  let ?q = "syncProject downEnv refConfig exProjectOpts emptyStore"
  have g0: "getIssuesConcurrently downEnv (projectId refConfig)
          (orElse (p_status exProjectOpts) (defaultStatus refConfig))
          (natOrElse (pageSize exProjectOpts) (defaultPageSize refConfig))
          (defaultInclude refConfig) (updatedSince exProjectOpts)
        = Inl (Error ''connect ECONNREFUSED'')"
    by code_simp
  have g1: "?q = Inr (fst (projr ?q), snd (projr ?q))"
    using syncProject_returns [OF down_client, of exProjectOpts emptyStore] by auto
  have g': "\<not> p_success (fst (projr ?q))
    \<and> errors (fst (projr ?q)) = [(0, ''Failed to fetch issues: connect ECONNREFUSED'')]
    \<and> processed (fst (projr ?q)) = 0 \<and> snd (projr ?q) = emptyStore"
    using g0 g1 failures_are_results [OF down_client, where st = emptyStore
        and popts = exProjectOpts
        and pr = "fst (projr ?q)" and st' = "snd (projr ?q)"
        and e' = "Error ''connect ECONNREFUSED''"]
    by simp
  from a a' b b' c c' d0 d1 d' f0 f2 f3 f' g0 g' down_client readOnly_client
    ref_client [of "[exIssue7]"] ref_client [of "[exBadDateIssue]"]
    ref_client [of "[exBadDateIssue, exIssue8]"]
  show ?thesis by blast
qed

section \<open>Properties of the mappers\<close>

lemma latest_foldl:
  "foldl (\<lambda>latest journal. if j_id journal > j_id latest then journal else latest) a js
     \<in> set (a # js)
   \<and> (\<forall>j \<in> set (a # js).
         j_id j \<le> j_id (foldl (\<lambda>latest journal. if j_id journal > j_id latest
                                    then journal else latest) a js))"
proof (induction js arbitrary: a)
  case Nil
  show ?case by simp
next
  case (Cons x xs)
  let ?f = "\<lambda>latest journal. if j_id journal > j_id latest then journal else latest"
  from Cons.IH [of "?f a x"] show ?case by (auto split: if_splits)
qed

lemma lastJournal_max:
  assumes "js \<noteq> []"
  shows "j_id (lastJournal js) = maxJournalId js"
proof -
  from assms obtain a rest where js: "js = a # rest" by (cases js) auto
  from latest_foldl [of a rest] js
  have m: "lastJournal js \<in> set js" "\<forall>j \<in> set js. j_id j \<le> j_id (lastJournal js)"
    by (simp_all add: lastJournal_def)
  show ?thesis unfolding maxJournalId_def
  proof (rule Max_eqI [symmetric])
    show "finite (j_id ` set js)" by simp
    show "\<And>y. y \<in> j_id ` set js \<Longrightarrow> y \<le> j_id (lastJournal js)" using m(2) by auto
    show "j_id (lastJournal js) \<in> j_id ` set js" using m(1) by auto
  qed
qed

lemma maxJournalId_ge: "j \<in> set js \<Longrightarrow> j_id j \<le> maxJournalId js"
  by (simp add: maxJournalId_def)

lemma maxJournalId_in: "js \<noteq> [] \<Longrightarrow> maxJournalId js \<in> j_id ` set js"
  unfolding maxJournalId_def by (rule Max_in) auto

lemma frontmatter_id: "getProp (mapIssueToFrontmatter issue) ''id'' = JNum (i_id issue)"
  by (simp add: mapIssueToFrontmatter_def getProp_def)

lemma frontmatter_updated_on:
  "getProp (mapIssueToFrontmatter issue) ''updated_on'' = JStr (updated_on issue)"
  by (simp add: mapIssueToFrontmatter_def getProp_def)

lemma frontmatter_lastJournalId:
  "getProp (mapIssueToFrontmatter issue) ''lastJournalId''
     = (if journalsOrEmpty issue = [] then JUndefined
        else JNum (maxJournalId (journalsOrEmpty issue)))"
  by (auto simp: mapIssueToFrontmatter_def getProp_def journalsOrEmpty_def lastJournal_max
      map_add_def split: option.splits)


lemma renderLoop_rendered: "renderLoop env js acc = renderLoop env (rendered js) acc"
  by (induction js arbitrary: acc) (auto simp: rendered_def split: sum.splits)

lemma shouldUpdateComments_nonempty: "shouldUpdateComments env js fm \<Longrightarrow> js \<noteq> []"
  by (auto simp: shouldUpdateComments_def Let_def split: if_splits)

text \<open>
  C4, as stated, fails when the newest journal is a change-only entry: on a first sync of
  an issue with journal 10 (a note) and journal 11 (no note), the marker written is 11,
  while the only entry rendered into the comments block is journal 10.
\<close>

theorem marker_rendered_counterexample:
  "shouldUpdateComments (refEnv [exIssue42b]) (journalsOrEmpty exIssue42b) (frontmatter (emptyParsed []))
   \<and> snd (projr (syncIssue (refEnv [exIssue42b]) 42 refConfig exOpts emptyStore)) exPath42
       = Some exBytes11fresh
   \<and> getProp (frontmatter (projr (parseMarkdownContent (refEnv []) exBytes11fresh)))
        ''lastJournalId'' = JNum 11
   \<and> comments (projr (parseMarkdownContent (refEnv []) exBytes11fresh)) = Some exComment10
   \<and> map j_id (rendered (extractNewJournals (journalsOrEmpty exIssue42b) None)) = [10]
   \<and> maxJournalId (rendered (extractNewJournals (journalsOrEmpty exIssue42b) None)) = 10
   \<and> JNum 11 \<noteq> JNum (maxJournalId (rendered (extractNewJournals (journalsOrEmpty exIssue42b) None)))"
  by code_simp

text \<open>
  C4 (amended). In a sync that processes comments, when the remote journals contain the
  entry whose id is the previous marker, the marker of the document that the engine
  writes is the greatest id among all the remote journals, rendered or not; it is at
  least the previous marker and at least the id of every entry rendered.
\<close>

theorem marker_monotonic:
  assumes "shouldUpdateComments env (journalsOrEmpty issue) fmOld"
    and "extractLastJournalId fmOld = Some m"
    and "m \<in> j_id ` set (journalsOrEmpty issue)"
  shows "getProp (md_frontmatter (documentOf issue cm)) ''lastJournalId''
           = JNum (maxJournalId (journalsOrEmpty issue))
     \<and> extractLastJournalId (md_frontmatter (documentOf issue cm))
           = Some (maxJournalId (journalsOrEmpty issue))
     \<and> m \<le> maxJournalId (journalsOrEmpty issue)
     \<and> maxJournalId (journalsOrEmpty issue) \<in> j_id ` set (journalsOrEmpty issue)
     \<and> (\<forall>j \<in> set (rendered (extractNewJournals (journalsOrEmpty issue) (Some m))).
           j_id j \<le> maxJournalId (journalsOrEmpty issue))"
proof -
  have ne: "journalsOrEmpty issue \<noteq> []"
    using assms(1) by (rule shouldUpdateComments_nonempty)
  then have p: "getProp (md_frontmatter (documentOf issue cm)) ''lastJournalId''
           = JNum (maxJournalId (journalsOrEmpty issue))"
    by (simp add: documentOf_def frontmatter_lastJournalId)
  then have e: "extractLastJournalId (md_frontmatter (documentOf issue cm))
           = Some (maxJournalId (journalsOrEmpty issue))"
    by (simp add: extractLastJournalId_def typeofNumberOrString_def)
  from assms(3) have ge: "m \<le> maxJournalId (journalsOrEmpty issue)"
    by (auto simp: maxJournalId_ge)
  have r: "\<forall>j \<in> set (rendered (extractNewJournals (journalsOrEmpty issue) (Some m))).
           j_id j \<le> maxJournalId (journalsOrEmpty issue)"
    by (auto simp: rendered_def extractNewJournals_def maxJournalId_ge split: if_splits)
  from p e ge r maxJournalId_in [OF ne] show ?thesis by blast
qed

theorem marker_monotonic_witness:
  "shouldUpdateComments (refEnv [exIssue42b]) (journalsOrEmpty exIssue42b)
      (frontmatter (projr (parseMarkdownContent (refEnv []) exBytes10)))
   \<and> extractLastJournalId (frontmatter (projr (parseMarkdownContent (refEnv []) exBytes10)))
       = Some 10
   \<and> (10::int) \<in> j_id ` set (journalsOrEmpty exIssue42b)
   \<and> getProp (md_frontmatter (documentOf exIssue42b None)) ''lastJournalId'' = JNum 11
   \<and> (10::int) \<le> 11"
proof -
  have h: "shouldUpdateComments (refEnv [exIssue42b]) (journalsOrEmpty exIssue42b)
      (frontmatter (projr (parseMarkdownContent (refEnv []) exBytes10)))"
    "extractLastJournalId (frontmatter (projr (parseMarkdownContent (refEnv []) exBytes10)))
       = Some 10"
    "(10::int) \<in> j_id ` set (journalsOrEmpty exIssue42b)"
    by code_simp+
  have v: "maxJournalId (journalsOrEmpty exIssue42b) = 11" by code_simp
  from marker_monotonic [OF h, of None] v h show ?thesis by simp
qed

text \<open>
  C5. The file records marker 10 and one comment; the remote issue has gained journal 11,
  with an empty note and one field-change record, and a later \<open>updated_on\<close>. The text
  rendered for the new journal is empty, the action is \<open>updated\<close> and the marker becomes 11,
  but the merge is not a no-op: since the list of new journals is not empty, the engine
  appends the separator and the empty text to the existing comments, so the comments block
  of the file gains a dangling rule.
\<close>

theorem silent_update_appends_separator:
  "comments (projr (readMarkdownFile (refEnv [exIssue42b]) exStore10 exPath42))
     = Some exComment10
   \<and> extractLastJournalId
        (frontmatter (projr (readMarkdownFile (refEnv [exIssue42b]) exStore10 exPath42)))
       = Some 10
   \<and> extractNewJournals (journalsOrEmpty exIssue42b) (Some 10) = [exJ11]
   \<and> mapJournalsToComments (refEnv [exIssue42b]) [exJ11] (commentsConfig refConfig) = Inr []
   \<and> resolveComments (refEnv [exIssue42b]) (commentsConfig refConfig) True exIssue42b
        (Some 10) (Some exComment10)
       = Inr (Some (exComment10 @ ''\<newline>\<newline>---\<newline>\<newline>''))
   \<and> success (fst (projr (syncIssue (refEnv [exIssue42b]) 42 refConfig exOpts exStore10)))
   \<and> action (fst (projr (syncIssue (refEnv [exIssue42b]) 42 refConfig exOpts exStore10)))
       = updated
   \<and> snd (projr (syncIssue (refEnv [exIssue42b]) 42 refConfig exOpts exStore10)) exPath42
       = Some exBytes11
   \<and> extractLastJournalId (frontmatter (projr (parseMarkdownContent (refEnv []) exBytes11)))
       = Some 11
   \<and> comments (projr (parseMarkdownContent (refEnv []) exBytes11))
       = Some (exComment10 @ ''\<newline>\<newline>---'')
   \<and> exComment10 @ ''\<newline>\<newline>---'' \<noteq> exComment10"
  by code_simp

section \<open>Idempotence\<close>










section \<open>Round trip of the codec\<close>


lemma indexOf_None_startsWith: "indexOf s p = None \<Longrightarrow> \<not> startsWith s p"
  by (cases s) (auto simp: startsWith_def split: if_splits)









end
